theory Spec2Isabelle
  imports Main "HOL-Library.Word"
begin

section \<open>JavaScript strings and the runtime functions the sources call\<close>

text \<open>
  A JavaScript string is a finite sequence of 16-bit code units; nothing forces the
  sequence to be well-formed UTF-16, so a lone surrogate is a legal element. Source
  literals are written with \<open>js\<close>; every literal of the modelled files is ASCII, where
  the code unit is the character code.
\<close>

type_synonym jsstring = "16 word list"

definition js :: "string \<Rightarrow> jsstring" where
  "js s = map of_char s"

text \<open>
  Thrown values. Every value thrown on the modelled paths is an instance of
  \<open>Error\<close>; the constructor records the class, the argument is \<open>message\<close>.
\<close>

datatype js_error =
    Error jsstring
  | TypeError jsstring
  | URIError jsstring
  | SyntaxError jsstring

fun message :: "js_error \<Rightarrow> jsstring" where
  "message (Error m) = m"
| "message (TypeError m) = m"
| "message (URIError m) = m"
| "message (SyntaxError m) = m"

text \<open>\<open>String.prototype.includes\<close>: the second string occurs as a contiguous run.\<close>

fun starts_with :: "jsstring \<Rightarrow> jsstring \<Rightarrow> bool" where
  "starts_with s [] = True"
| "starts_with [] (k # ks) = False"
| "starts_with (c # cs) (k # ks) = (c = k \<and> starts_with cs ks)"

fun js_includes :: "jsstring \<Rightarrow> jsstring \<Rightarrow> bool" where
  "js_includes [] k = (k = [])"
| "js_includes (c # cs) k = (starts_with (c # cs) k \<or> js_includes cs k)"

text \<open>
  \<open>String.prototype.toLowerCase\<close>, exact on Basic Latin (\<open>A\<close>..\<open>Z\<close> become
  \<open>a\<close>..\<open>z\<close>). Code units outside Basic Latin are kept as they are: the case
  mappings of other scripts are not modelled. The sources lowercase a query only to look
  for the keywords of the mock table in it, which are Basic Latin.
\<close>

definition toLowerCase :: "jsstring \<Rightarrow> jsstring" where
  "toLowerCase s = map (\<lambda>c. if 0x41 \<le> c \<and> c \<le> 0x5A then c + 0x20 else c) s"

text \<open>
  The white space of \<open>String.prototype.trim\<close> and of the regular expression class
  \<open>\s\<close>: ECMAScript WhiteSpace and LineTerminator.
\<close>

definition isWhiteSpace :: "16 word \<Rightarrow> bool" where
  "isWhiteSpace c \<longleftrightarrow>
     c \<in> {0x09, 0x0A, 0x0B, 0x0C, 0x0D, 0x20, 0xA0, 0x1680, 0x2028, 0x2029,
          0x202F, 0x205F, 0x3000, 0xFEFF}
     \<or> (0x2000 \<le> c \<and> c \<le> 0x200A)"

definition trim :: "jsstring \<Rightarrow> jsstring" where
  "trim s = rev (dropWhile isWhiteSpace (rev (dropWhile isWhiteSpace s)))"

text \<open>\<open>s.replace(/\s+/g, '-')\<close>: every maximal run of white space becomes one hyphen.\<close>

function replace_ws :: "jsstring \<Rightarrow> jsstring" where
  "replace_ws [] = []"
| "replace_ws (c # cs) =
     (if isWhiteSpace c then 0x2D # replace_ws (dropWhile isWhiteSpace cs)
      else c # replace_ws cs)"
  by pat_completeness auto
termination
  by (relation "measure length") (auto simp: length_dropWhile_le less_Suc_eq_le)

text \<open>
  \<open>encodeURIComponent\<close>, after the Encode operation of ECMAScript: an unreserved
  code unit is copied; any other code point is written as the percent-escaped octets
  of its UTF-8 form; a surrogate that is not half of a pair throws \<open>URIError\<close>.
\<close>

definition uriUnreserved :: "16 word \<Rightarrow> bool" where
  "uriUnreserved c \<longleftrightarrow>
     (0x41 \<le> c \<and> c \<le> 0x5A) \<or> (0x61 \<le> c \<and> c \<le> 0x7A) \<or> (0x30 \<le> c \<and> c \<le> 0x39)
     \<or> c \<in> {0x2D, 0x5F, 0x2E, 0x21, 0x7E, 0x2A, 0x27, 0x28, 0x29}"

definition isLeadingSurrogate :: "16 word \<Rightarrow> bool" where
  "isLeadingSurrogate c \<longleftrightarrow> 0xD800 \<le> c \<and> c \<le> 0xDBFF"

definition isTrailingSurrogate :: "16 word \<Rightarrow> bool" where
  "isTrailingSurrogate c \<longleftrightarrow> 0xDC00 \<le> c \<and> c \<le> 0xDFFF"

definition surrogatePairToCodePoint :: "16 word \<Rightarrow> 16 word \<Rightarrow> nat" where
  "surrogatePairToCodePoint lead trail =
     (unat lead - 0xD800) * 0x400 + (unat trail - 0xDC00) + 0x10000"

definition utf8 :: "nat \<Rightarrow> nat list" where
  "utf8 cp =
     (if cp < 0x80 then [cp]
      else if cp < 0x800 then [0xC0 + cp div 0x40, 0x80 + cp mod 0x40]
      else if cp < 0x10000 then
        [0xE0 + cp div 0x1000, 0x80 + cp div 0x40 mod 0x40, 0x80 + cp mod 0x40]
      else
        [0xF0 + cp div 0x40000, 0x80 + cp div 0x1000 mod 0x40,
         0x80 + cp div 0x40 mod 0x40, 0x80 + cp mod 0x40])"

definition hexDigit :: "nat \<Rightarrow> 16 word" where
  "hexDigit d = (if d < 10 then 0x30 + of_nat d else 0x37 + of_nat d)"

definition percentEscape :: "nat list \<Rightarrow> jsstring" where
  "percentEscape octets = concat (map (\<lambda>b. [0x25, hexDigit (b div 16), hexDigit (b mod 16)]) octets)"

definition uri_malformed :: js_error where
  "uri_malformed = URIError (js ''URI malformed'')"

fun encodeURIComponent :: "jsstring \<Rightarrow> js_error + jsstring" where
  "encodeURIComponent [] = Inr []"
| "encodeURIComponent (c # cs) =
     (if uriUnreserved c then
        (case encodeURIComponent cs of Inl e \<Rightarrow> Inl e | Inr r \<Rightarrow> Inr (c # r))
      else if \<not> isLeadingSurrogate c \<and> \<not> isTrailingSurrogate c then
        (case encodeURIComponent cs of
           Inl e \<Rightarrow> Inl e
         | Inr r \<Rightarrow> Inr (percentEscape (utf8 (unat c)) @ r))
      else if isTrailingSurrogate c then Inl uri_malformed
      else
        (case cs of
           [] \<Rightarrow> Inl uri_malformed
         | d # ds \<Rightarrow>
             if \<not> isTrailingSurrogate d then Inl uri_malformed
             else
               (case encodeURIComponent ds of
                  Inl e \<Rightarrow> Inl e
                | Inr r \<Rightarrow> Inr (percentEscape (utf8 (surrogatePairToCodePoint c d)) @ r))))"

text \<open>
  \<open>String.prototype.isWellFormed\<close>: every surrogate is half of a pair. The sources
  do not call it; it says which strings \<open>encodeURIComponent\<close> accepts.
\<close>

fun isWellFormed :: "jsstring \<Rightarrow> bool" where
  "isWellFormed [] = True"
| "isWellFormed (c # cs) =
     (if isLeadingSurrogate c then
        (case cs of [] \<Rightarrow> False | d # ds \<Rightarrow> isTrailingSurrogate d \<and> isWellFormed ds)
      else \<not> isTrailingSurrogate c \<and> isWellFormed cs)"

text \<open>
  The text a template literal inserts for a non-negative integer: its decimal digits.
\<close>

fun numberToString :: "nat \<Rightarrow> jsstring" where
  "numberToString n =
     (if n < 10 then [0x30 + of_nat n]
      else numberToString (n div 10) @ [0x30 + of_nat (n mod 10)])"

declare numberToString.simps [simp del]

text \<open>\<open>Array.prototype.map\<close> with the callback's element and index arguments.\<close>

fun map_from :: "nat \<Rightarrow> ('a \<Rightarrow> nat \<Rightarrow> 'b) \<Rightarrow> 'a list \<Rightarrow> 'b list" where
  "map_from i f [] = []"
| "map_from i f (x # xs) = f x i # map_from (Suc i) f xs"

definition map_index :: "('a \<Rightarrow> nat \<Rightarrow> 'b) \<Rightarrow> 'a list \<Rightarrow> 'b list" where
  "map_index f xs = map_from 0 f xs"

text \<open>\<open>Array.prototype.join\<close> on an array of strings.\<close>

fun join :: "jsstring \<Rightarrow> jsstring list \<Rightarrow> jsstring" where
  "join sep [] = []"
| "join sep [x] = x"
| "join sep (x # y # ys) = x @ sep @ join sep (y # ys)"

section \<open>The retrieval step: \<open>src/lib/search.ts\<close>\<close>

record SearchResult =
  title :: jsstring
  url :: jsstring
  snippet :: jsstring
  domain :: jsstring

text \<open>
  The mock table, as an association list in the order \<open>Object.entries\<close> enumerates
  its keys (insertion order).
\<close>

definition mockSearchResults :: "(jsstring \<times> SearchResult list) list" where
  "mockSearchResults =
   [(js ''climate change'',
     [\<lparr>title = js ''Climate Change Evidence and Impacts | NASA'',
       url = js ''https://climate.nasa.gov/effects/'',
       snippet = js ''Climate change is causing measurable changes to Earth's systems. Scientists have been tracking these changes for decades, documenting rising temperatures, melting ice sheets, and changing precipitation patterns.'',
       domain = js ''climate.nasa.gov''\<rparr>,
      \<lparr>title = js ''What is Climate Change? | United Nations'',
       url = js ''https://www.un.org/en/climatechange/what-is-climate-change'',
       snippet = js ''Climate change refers to long-term shifts in temperatures and weather patterns. While climate changes may be natural, since the 1800s, human activities have been the main driver of climate change.'',
       domain = js ''un.org''\<rparr>,
      \<lparr>title = js ''Climate Change Impacts | EPA'',
       url = js ''https://www.epa.gov/climate-impacts'',
       snippet = js ''Climate change impacts human health and wellbeing through more extreme weather events and wildfires, decreased air quality, and diseases transmitted by insects, food, and water.'',
       domain = js ''epa.gov''\<rparr>]),
    (js ''artificial intelligence'',
     [\<lparr>title = js ''What is Artificial Intelligence (AI)? | IBM'',
       url = js ''https://www.ibm.com/topics/artificial-intelligence'',
       snippet = js ''Artificial intelligence leverages computers and machines to mimic the problem-solving and decision-making capabilities of the human mind.'',
       domain = js ''ibm.com''\<rparr>,
      \<lparr>title = js ''Artificial Intelligence | Stanford HAI'',
       url = js ''https://hai.stanford.edu/what-ai'',
       snippet = js ''AI is a broad field of computer science concerned with building smart machines capable of performing tasks that typically require human intelligence.'',
       domain = js ''stanford.edu''\<rparr>])]"

text \<open>
  The loop over the table's entries: \<open>results = [...results, ...mockResults]\<close> for each
  keyword the lowercased query includes.
\<close>

fun keyword_matches ::
  "(jsstring \<times> SearchResult list) list \<Rightarrow> jsstring \<Rightarrow> SearchResult list \<Rightarrow> SearchResult list" where
  "keyword_matches [] lowercaseQuery results = results"
| "keyword_matches ((keyword, mockResults) # entries) lowercaseQuery results =
     keyword_matches entries lowercaseQuery
       (if js_includes lowercaseQuery keyword then results @ mockResults else results)"

record SearchResponse =
  results :: "SearchResult list"
  totalResults :: nat

text \<open>The two generic results; building the first one's \<open>url\<close> can throw.\<close>

definition genericResults :: "jsstring \<Rightarrow> js_error + SearchResult list" where
  "genericResults query =
     (case encodeURIComponent query of
        Inl e \<Rightarrow> Inl e
      | Inr encoded \<Rightarrow> Inr
          [\<lparr>title = js ''Search Results for \"'' @ query @ js ''\"'',
            url = js ''https://example.com/search?q='' @ encoded,
            snippet = js ''This is a simulated search result for the query \"'' @ query
              @ js ''\". In a real implementation, this would be replaced with actual web search results from APIs like Brave Search or SerpAPI.'',
            domain = js ''example.com''\<rparr>,
           \<lparr>title = query @ js '' - Research and Analysis'',
            url = js ''https://research.example.com/'' @ replace_ws query,
            snippet = js ''Comprehensive research and analysis on '' @ query
              @ js ''. This mock result demonstrates how search results would be displayed in the application.'',
            domain = js ''research.example.com''\<rparr>])"

text \<open>
  \<open>searchWeb\<close>; the one-second delay before the lookup has no effect on the value and
  is left out. \<open>Inl\<close> is a rejected promise.
\<close>

definition searchWeb :: "jsstring \<Rightarrow> js_error + SearchResponse" where
  "searchWeb query =
     (let lowercaseQuery = toLowerCase query;
          results = keyword_matches mockSearchResults lowercaseQuery []
      in case (if length results = 0 then genericResults query else Inr results) of
           Inl e \<Rightarrow> Inl e
         | Inr results \<Rightarrow> Inr \<lparr>results = take 10 results, totalResults = length results\<rparr>)"

section \<open>The generation client: \<open>src/lib/openrouter.ts\<close>\<close>

datatype role = System | User | Assistant

record ChatMessage =
  role :: role
  content :: jsstring

text \<open>
  \<open>content\<close> of a response is \<open>data.choices[0].message.content\<close> as it was read:
  \<open>None\<close> when the message has no such field.
\<close>

record ChatResponse =
  content :: "jsstring option"
  usage :: "(nat \<times> nat \<times> nat) option"

record OpenRouterClient =
  apiKey :: jsstring
  baseUrl :: jsstring
  model :: jsstring

definition new_OpenRouterClient :: "jsstring \<Rightarrow> OpenRouterClient" where
  "new_OpenRouterClient key =
     \<lparr>apiKey = key, baseUrl = js ''https://openrouter.ai/api/v1'',
      model = js ''deepseek/deepseek-chat''\<rparr>"

text \<open>
  The request \<open>chat\<close> sends: the address, the headers that vary, and the \<open>model\<close> and
  \<open>messages\<close> of the body (\<open>temperature\<close>, \<open>max_tokens\<close> and \<open>stream\<close> are constants).
\<close>

record chat_request =
  endpoint :: jsstring
  Authorization :: jsstring
  HTTP_Referer :: jsstring
  body_model :: jsstring
  body_messages :: "ChatMessage list"

text \<open>
  What the backend can answer. A body is not JSON (\<open>response.json()\<close> rejects with a
  \<open>SyntaxError\<close>, whose message is the argument), or it is the JSON value \<open>null\<close>, or it
  is a value of which the client reads \<open>error.message\<close>, \<open>choices\<close> and \<open>usage\<close>, each
  \<open>None\<close> when absent. A choice has no \<open>message\<close>, or a message whose \<open>content\<close> is
  present or not. Messages and contents that are present are strings. The texts of the
  \<open>TypeError\<close>s below are those of V8.
\<close>

datatype choice = NoMessage | Message "jsstring option"

datatype completion_body =
    Unparsable jsstring
  | JsonNull
  | Parsed (error_message: "jsstring option") (choices: "choice list option")
      (body_usage: "(nat \<times> nat \<times> nat) option")

datatype fetch_outcome =
    Rejected js_error
  | Response nat completion_body

type_synonym backend = "chat_request \<Rightarrow> fetch_outcome"

definition ok :: "nat \<Rightarrow> bool" where
  "ok status \<longleftrightarrow> 200 \<le> status \<and> status \<le> 299"

record process_env =
  OPENROUTER_API_KEY :: "jsstring option"
  NEXT_PUBLIC_APP_URL :: "jsstring option"

text \<open>The body the route reads with \<open>request.json()\<close>; \<open>None\<close> is an absent field.\<close>

record synthesize_body =
  body_query :: "jsstring option"
  body_searchResults :: "SearchResult list option"

text \<open>
  The module-level singleton, and a trace of what was called and logged, in order.
\<close>

datatype event =
    CallSearchWeb jsstring
  | CallSynthesize "js_error + synthesize_body"
  | CallChatCompletions chat_request
  | ConsoleError jsstring js_error

record world =
  openRouterClient :: "OpenRouterClient option"
  trace :: "event list"

definition emit :: "event \<Rightarrow> world \<Rightarrow> world" where
  "emit ev w = w\<lparr>trace := trace w @ [ev]\<rparr>"



text \<open>The argument of \<open>fetch\<close> in \<open>chat\<close>.\<close>

definition chatRequest :: "process_env \<Rightarrow> OpenRouterClient \<Rightarrow> ChatMessage list \<Rightarrow> chat_request" where
  "chatRequest env this messages =
     \<lparr>endpoint = baseUrl this @ js ''/chat/completions'',
      Authorization = js ''Bearer '' @ apiKey this,
      HTTP_Referer =
        (case NEXT_PUBLIC_APP_URL env of
           None \<Rightarrow> js ''http://localhost:3000''
         | Some u \<Rightarrow> if u = [] then js ''http://localhost:3000'' else u),
      body_model = model this,
      body_messages = messages\<rparr>"

text \<open>
  \<open>chat\<close>: one \<open>fetch\<close>; whatever is thrown inside the \<open>try\<close> is logged and thrown
  again.
\<close>

definition chat ::
  "process_env \<Rightarrow> backend \<Rightarrow> OpenRouterClient \<Rightarrow> ChatMessage list \<Rightarrow> world
     \<Rightarrow> (js_error + ChatResponse) \<times> world" where
  "chat env fetch this messages w =
     (let request = chatRequest env this messages;
          w1 = emit (CallChatCompletions request) w;
          attempt =
            (case fetch request of
               Rejected e \<Rightarrow> Inl e
             | Response status body \<Rightarrow>
                 if \<not> ok status then
                   (case body of
                      JsonNull \<Rightarrow>
                        Inl (TypeError (js ''Cannot read properties of null (reading 'error')''))
                    | _ \<Rightarrow>
                        Inl (Error (js ''OpenRouter API error: '' @ numberToString status
                          @ js '' - ''
                          @ (case body of
                               Parsed (Some m) _ _ \<Rightarrow> if m = [] then js ''Unknown error'' else m
                             | _ \<Rightarrow> js ''Unknown error''))))
                 else
                   (case body of
                      Unparsable m \<Rightarrow> Inl (SyntaxError m)
                    | JsonNull \<Rightarrow>
                        Inl (TypeError (js ''Cannot read properties of null (reading 'choices')''))
                    | Parsed _ None _ \<Rightarrow> Inl (Error (js ''No response generated from the model''))
                    | Parsed _ (Some []) _ \<Rightarrow>
                        Inl (Error (js ''No response generated from the model''))
                    | Parsed _ (Some (NoMessage # _)) _ \<Rightarrow>
                        Inl (TypeError
                          (js ''Cannot read properties of undefined (reading 'content')''))
                    | Parsed _ (Some (Message c # _)) u \<Rightarrow> Inr \<lparr>content = c, usage = u\<rparr>))
      in case attempt of
           Inl error \<Rightarrow> (Inl error, emit (ConsoleError (js ''OpenRouter API error:'') error) w1)
         | Inr response \<Rightarrow> (Inr response, w1))"

definition systemPrompt :: jsstring where
  "systemPrompt = js ''You are an AI research assistant that synthesizes information from web search results to provide comprehensive, accurate answers. Your task is to:\<newline>\<newline>1. Analyze the provided search results\<newline>2. Extract the most relevant and accurate information\<newline>3. Synthesize a comprehensive answer that addresses the user's question\<newline>4. Maintain objectivity and cite sources appropriately\<newline>5. If there are conflicting information, mention the different perspectives\<newline>6. Keep the response concise but thorough\<newline>\<newline>Format your response in a clear, well-structured manner with proper citations using [1], [2], etc. that correspond to the source URLs provided.''"

definition searchContext :: "SearchResult list \<Rightarrow> jsstring" where
  "searchContext searchResults =
     join (js ''\<newline>'')
       (map_index
          (\<lambda>result index.
             js ''['' @ numberToString (index + 1) @ js ''] '' @ title result
             @ js ''\<newline>URL: '' @ url result
             @ js ''\<newline>Content: '' @ snippet result @ js ''\<newline>'')
          searchResults)"

definition userPrompt :: "jsstring \<Rightarrow> SearchResult list \<Rightarrow> jsstring" where
  "userPrompt query searchResults =
     js ''Question: '' @ query @ js ''\<newline>\<newline>Search Results:\<newline>''
     @ searchContext searchResults
     @ js ''\<newline>\<newline>Please provide a comprehensive answer based on these search results. Include relevant citations using the format [1], [2], etc.''"

definition messages :: "jsstring \<Rightarrow> SearchResult list \<Rightarrow> ChatMessage list" where
  "messages query searchResults =
     [\<lparr>role = System, content = systemPrompt\<rparr>,
      \<lparr>role = User, content = userPrompt query searchResults\<rparr>]"

definition synthesizeSearchResults ::
  "process_env \<Rightarrow> backend \<Rightarrow> OpenRouterClient \<Rightarrow> jsstring \<Rightarrow> SearchResult list \<Rightarrow> world
     \<Rightarrow> (js_error + jsstring option) \<times> world" where
  "synthesizeSearchResults env fetch this query searchResults w =
     (case chat env fetch this (messages query searchResults) w of
        (Inl e, w') \<Rightarrow> (Inl e, w')
      | (Inr response, w') \<Rightarrow> (Inr (ChatResponse.content response), w'))"

definition getOpenRouterClient ::
  "process_env \<Rightarrow> world \<Rightarrow> (js_error + OpenRouterClient) \<times> world" where
  "getOpenRouterClient env w =
     (case openRouterClient w of
        Some client \<Rightarrow> (Inr client, w)
      | None \<Rightarrow>
          (case OPENROUTER_API_KEY env of
             None \<Rightarrow> (Inl (Error (js ''OpenRouter API key not configured'')), w)
           | Some key \<Rightarrow>
               if key = [] then (Inl (Error (js ''OpenRouter API key not configured'')), w)
               else (Inr (new_OpenRouterClient key),
                     w\<lparr>openRouterClient := Some (new_OpenRouterClient key)\<rparr>)))"

section \<open>The synthesize endpoint: \<open>src/app/api/synthesize/route.ts\<close>\<close>

text \<open>
  The JSON objects the route answers with: \<open>{answer}\<close>, \<open>{error}\<close>, and the empty
  object, which is what \<open>{answer}\<close> serialises to when the answer is \<open>undefined\<close>.
\<close>

datatype json_reply = AnswerJson jsstring | EmptyJson | ErrorJson jsstring

record NextResponse =
  json :: json_reply
  status :: nat

text \<open>
  \<open>POST\<close>. The argument is what reading and destructuring \<open>request.json()\<close> gives:
  the two fields, typed as the search handler sends them, or the error thrown.
  \<open>!query\<close> holds for an absent and for an empty string; \<open>!searchResults\<close> holds for
  an absent array only (an empty array is truthy). The \<open>catch\<close> block's last return
  (\<open>Internal server error\<close>) is for thrown values that are not \<open>Error\<close>s; none exists on
  these paths, so it has no branch.
\<close>

definition POST ::
  "process_env \<Rightarrow> backend \<Rightarrow> js_error + synthesize_body \<Rightarrow> world \<Rightarrow> NextResponse \<times> world" where
  "POST env fetch request w =
     (let attempt =
            (case request of
               Inl e \<Rightarrow> (Inl e, w)
             | Inr body \<Rightarrow>
                 (case (body_query body, body_searchResults body) of
                    (Some query, Some searchResults) \<Rightarrow>
                      if query = [] then
                        (Inr \<lparr>json = ErrorJson (js ''Query and search results are required''),
                              status = 400\<rparr>, w)
                      else
                        (case getOpenRouterClient env w of
                           (Inl e, w1) \<Rightarrow> (Inl e, w1)
                         | (Inr client, w1) \<Rightarrow>
                             (case synthesizeSearchResults env fetch client query searchResults w1 of
                                (Inl e, w2) \<Rightarrow> (Inl e, w2)
                              | (Inr answer, w2) \<Rightarrow>
                                  (Inr \<lparr>json = (case answer of
                                                  Some a \<Rightarrow> AnswerJson a
                                                | None \<Rightarrow> EmptyJson),
                                        status = 200\<rparr>, w2)))
                  | _ \<Rightarrow>
                      (Inr \<lparr>json = ErrorJson (js ''Query and search results are required''),
                            status = 400\<rparr>, w)))
      in case attempt of
           (Inr reply, w') \<Rightarrow> (reply, w')
         | (Inl error, w') \<Rightarrow>
             (if js_includes (message error) (js ''API key not configured'') then
                \<lparr>json = ErrorJson (js ''OpenRouter API key not configured''), status = 500\<rparr>
              else \<lparr>json = ErrorJson (message error), status = 500\<rparr>,
              emit (ConsoleError (js ''Synthesis API error:'') error) w'))"

section \<open>The search handler: \<open>src/components/SearchInterface.tsx\<close>\<close>

record Citation =
  number :: nat
  title :: jsstring
  url :: jsstring
  domain :: jsstring

definition citations :: "SearchResult list \<Rightarrow> Citation list" where
  "citations searchResults =
     map_index
       (\<lambda>result index.
          \<lparr>number = index + 1, title = SearchResult.title result,
           url = SearchResult.url result, domain = SearchResult.domain result\<rparr>)
       searchResults"

text \<open>
  The response the component stores. \<open>answer\<close> is \<open>data.answer\<close> of the endpoint's JSON,
  \<open>None\<close> when the object has no such field.
\<close>

record SearchResponse_ui =
  answer :: "jsstring option"
  response_citations :: "Citation list"
  response_searchResults :: "SearchResult list"

text \<open>The component's state: the four \<open>useState\<close> cells.\<close>

record SearchInterface =
  query :: jsstring
  loading :: bool
  response :: "SearchResponse_ui option"
  error :: "jsstring option"

text \<open>
  \<open>handleSearch\<close>. The request to \<open>/api/synthesize\<close> is answered by \<open>POST\<close> above, with
  the body \<open>JSON.stringify\<close> wrote; a thrown value is caught by the one \<open>catch\<close>, which
  stores its message (every thrown value here is an \<open>Error\<close>, so the text
  \<open>An error occurred\<close> is never stored), and \<open>finally\<close> clears \<open>loading\<close>.
\<close>

definition handleSearch ::
  "process_env \<Rightarrow> backend \<Rightarrow> SearchInterface \<times> world \<Rightarrow> SearchInterface \<times> world" where
  "handleSearch env fetch sw =
     (let ui = fst sw; w = snd sw in
      if trim (query ui) = [] then (ui, w)
      else
        (let ui1 = ui\<lparr>loading := True, error := None, response := None\<rparr>;
             w1 = emit (CallSearchWeb (query ui)) w;
             attempt =
               (case searchWeb (query ui) of
                  Inl e \<Rightarrow> (Inl e, w1)
                | Inr searchResults \<Rightarrow>
                    (let body = \<lparr>body_query = Some (query ui),
                                 body_searchResults = Some (results searchResults)\<rparr>;
                         (apiResponse, w2) = POST env fetch (Inr body) (emit (CallSynthesize (Inr body)) w1)
                     in if \<not> ok (status apiResponse) then
                          (Inl (Error (js ''API error: '' @ numberToString (status apiResponse))), w2)
                        else
                          (Inr \<lparr>answer = (case json apiResponse of
                                            AnswerJson a \<Rightarrow> Some a | _ \<Rightarrow> None),
                                response_citations = citations (results searchResults),
                                response_searchResults = results searchResults\<rparr>, w2)))
         in case attempt of
              (Inr r, w') \<Rightarrow> (ui1\<lparr>response := Some r, loading := False\<rparr>, w')
            | (Inl err, w') \<Rightarrow> (ui1\<lparr>error := Some (message err), loading := False\<rparr>, w')))"

section \<open>The retrieval step over a store of objects and arrays\<close>

text \<open>
  The results \<open>searchWeb\<close> returns are the very objects of the mock table, so the
  question whether a call changes a stored entry needs the objects' identities. Here
  objects and arrays live in a store, addressed by position; allocation appends a cell
  and nothing else writes. The array literals of the module are allocated when the module
  is loaded; the spread \<open>[...results, ...mockResults]\<close> and \<open>slice\<close> allocate new arrays
  whose elements are the addresses of the old ones.
\<close>

type_synonym addr = nat

datatype cell = Object SearchResult | Array "addr list"

type_synonym store = "cell list"

text \<open>Allocation: the new cell's address is the next position.\<close>

definition alloc :: "cell \<Rightarrow> store \<Rightarrow> addr \<times> store" where
  "alloc c s = (length s, s @ [c])"

text \<open>Reading an object, an array, and the results an array of objects holds.\<close>

definition object_at :: "store \<Rightarrow> addr \<Rightarrow> SearchResult option" where
  "object_at s a =
     (if a < length s then (case s ! a of Object r \<Rightarrow> Some r | Array xs \<Rightarrow> None) else None)"

definition array_at :: "store \<Rightarrow> addr \<Rightarrow> addr list option" where
  "array_at s a =
     (if a < length s then (case s ! a of Array xs \<Rightarrow> Some xs | Object r \<Rightarrow> None) else None)"

definition elements :: "store \<Rightarrow> addr \<Rightarrow> addr list" where
  "elements s a = (case array_at s a of Some xs \<Rightarrow> xs | None \<Rightarrow> [])"

definition read_results :: "store \<Rightarrow> addr \<Rightarrow> SearchResult list option" where
  "read_results s a =
     (case array_at s a of None \<Rightarrow> None | Some xs \<Rightarrow> those (map (object_at s) xs))"

text \<open>An array literal of object literals: the objects are allocated, then the array.\<close>

fun new_objects :: "SearchResult list \<Rightarrow> store \<Rightarrow> addr list \<times> store" where
  "new_objects [] s = ([], s)"
| "new_objects (r # rs) s =
     (let (a, s1) = alloc (Object r) s; (as, s2) = new_objects rs s1 in (a # as, s2))"

definition new_array :: "SearchResult list \<Rightarrow> store \<Rightarrow> addr \<times> store" where
  "new_array rs s = (let (as, s1) = new_objects rs s in alloc (Array as) s1)"

text \<open>
  Loading the module evaluates the literal of \<open>mockSearchResults\<close>: each keyword's array is
  allocated in turn, and the table maps the keyword to the array's address.
\<close>

fun load_table ::
  "(jsstring \<times> SearchResult list) list \<Rightarrow> store \<Rightarrow> (jsstring \<times> addr) list \<times> store" where
  "load_table [] s = ([], s)"
| "load_table ((keyword, rs) # entries) s =
     (let (a, s1) = new_array rs s; (table, s2) = load_table entries s1
      in ((keyword, a) # table, s2))"

definition mockSearchResults_refs :: "(jsstring \<times> addr) list" where
  "mockSearchResults_refs = fst (load_table mockSearchResults [])"

definition module_store :: store where
  "module_store = snd (load_table mockSearchResults [])"

text \<open>
  The loop and \<open>searchWeb\<close> on the store. \<open>let results = []\<close> allocates the empty array;
  each spread allocates the concatenation of two arrays' elements; the literal of the
  generic results allocates two objects and their array; \<open>slice(0, 10)\<close> allocates the
  array that is returned, with \<open>totalResults\<close>.
\<close>

fun keyword_matches_st ::
  "(jsstring \<times> addr) list \<Rightarrow> jsstring \<Rightarrow> addr \<Rightarrow> store \<Rightarrow> addr \<times> store" where
  "keyword_matches_st [] lowercaseQuery found s = (found, s)"
| "keyword_matches_st ((keyword, mockResults) # entries) lowercaseQuery found s =
     (if js_includes lowercaseQuery keyword then
        (let (found', s') = alloc (Array (elements s found @ elements s mockResults)) s
         in keyword_matches_st entries lowercaseQuery found' s')
      else keyword_matches_st entries lowercaseQuery found s)"

definition searchWeb_st :: "jsstring \<Rightarrow> store \<Rightarrow> (js_error + addr \<times> nat) \<times> store" where
  "searchWeb_st q s =
     (let lowercaseQuery = toLowerCase q;
          (empty, s0) = alloc (Array []) s;
          (found, s1) = keyword_matches_st mockSearchResults_refs lowercaseQuery empty s0
      in case (if length (elements s1 found) = 0 then
                 (case genericResults q of
                    Inl e \<Rightarrow> (Inl e, s1)
                  | Inr generic \<Rightarrow> (let (a, s2) = new_array generic s1 in (Inr a, s2)))
               else (Inr found, s1)) of
           (Inl e, s2) \<Rightarrow> (Inl e, s2)
         | (Inr final, s2) \<Rightarrow>
             (let (sliced, s3) = alloc (Array (take 10 (elements s2 final))) s2
              in (Inr (sliced, length (elements s2 final)), s3)))"

text \<open>
  The table of addresses describes the table of values: each keyword's array holds
  objects with that keyword's results.
\<close>

definition table_ok ::
  "(jsstring \<times> addr) list \<Rightarrow> (jsstring \<times> SearchResult list) list \<Rightarrow> store \<Rightarrow> bool" where
  "table_ok refs vals s \<longleftrightarrow>
     list_all2 (\<lambda>(k, a) (k', rs). k = k' \<and> read_results s a = Some rs) refs vals"

section \<open>Example environments\<close>

text \<open>Concrete worlds, environments and backends for the examples below.\<close>

definition world0 :: world where
  "world0 = \<lparr>openRouterClient = None, trace = []\<rparr>"

definition env_without_key :: process_env where
  "env_without_key = \<lparr>OPENROUTER_API_KEY = None, NEXT_PUBLIC_APP_URL = None\<rparr>"

definition env_empty_key :: process_env where
  "env_empty_key = \<lparr>OPENROUTER_API_KEY = Some [], NEXT_PUBLIC_APP_URL = None\<rparr>"

definition env_with_key :: process_env where
  "env_with_key = \<lparr>OPENROUTER_API_KEY = Some (js ''sk-test''), NEXT_PUBLIC_APP_URL = None\<rparr>"





definition backend_answering :: backend where
  "backend_answering request =
     Response 200 (Parsed None (Some [Message (Some (js ''An answer [1].''))]) None)"

definition idle :: "jsstring \<Rightarrow> SearchInterface" where
  "idle q = \<lparr>query = q, loading = False, response = None, error = None\<rparr>"

section \<open>Properties\<close>

subsection \<open>Literals\<close>

lemma js_append: "js a @ js b = js (a @ b)"
  by (simp add: js_def)

subsection \<open>Mapping with the index\<close>

lemma length_map_from: "length (map_from i f xs) = length xs"
  by (induction xs arbitrary: i) simp_all

lemma nth_map_from: "k < length xs \<Longrightarrow> map_from i f xs ! k = f (xs ! k) (i + k)"
proof (induction xs arbitrary: i k)
  case Nil
  then show ?case by simp
next
  case (Cons x xs)
  then show ?case by (cases k) simp_all
qed

lemma map_from_upt: "map_from i f xs = map (\<lambda>j. f (xs ! j) (i + j)) [0..<length xs]"
  by (rule nth_equalityI) (simp_all add: length_map_from nth_map_from)

subsection \<open>Decimal labels\<close>

lemma digit_unat: "d < 10 \<Longrightarrow> unat (0x30 + of_nat d :: 16 word) = 48 + d"
  by (simp add: unat_word_ariths unat_of_nat)

lemma numberToString_value:
  "foldl (\<lambda>v d. 10 * v + (unat d - 48)) 0 (numberToString n) = n"
proof (induction n rule: numberToString.induct)
  case (1 n)
  show ?case
  proof (cases "n < 10")
    case True
    then show ?thesis by (simp add: numberToString.simps [of n] digit_unat)
  next
    case False
    with "1.IH" have "foldl (\<lambda>v d. 10 * v + (unat d - 48)) 0 (numberToString (n div 10)) = n div 10"
      by simp
    with False show ?thesis
      by (simp add: numberToString.simps [of n] digit_unat)
  qed
qed

lemma numberToString_digits:
  "d \<in> set (numberToString n) \<Longrightarrow> 0x30 \<le> d \<and> d \<le> 0x39"
proof (induction n rule: numberToString.induct)
  case (1 n)
  have dig: "0x30 \<le> (0x30 + of_nat k :: 16 word) \<and> (0x30 + of_nat k :: 16 word) \<le> 0x39"
    if "k < 10" for k
    using that digit_unat [of k] by (simp add: word_le_nat_alt)
  show ?case
  proof (cases "n < 10")
    case True
    with "1.prems" dig [of n] show ?thesis by (simp add: numberToString.simps [of n])
  next
    case False
    with "1.prems" "1.IH" dig [of "n mod 10"] show ?thesis
      by (auto simp: numberToString.simps [of n])
  qed
qed

subsection \<open>The context block\<close>

lemma numberToString_all_digits:
  "list_all (\<lambda>d. 0x30 \<le> d \<and> d \<le> 0x39) (numberToString n)"
  using numberToString_digits [of _ n] by (auto simp: list_all_iff)

lemma digit_not_zero: "0 < d \<Longrightarrow> d < 10 \<Longrightarrow> (0x30 + of_nat d :: 16 word) \<noteq> 0x30"
proof
  assume "0 < d" and "d < 10" and "(0x30 + of_nat d :: 16 word) = 0x30"
  then have "unat (0x30 + of_nat d :: 16 word) = unat (0x30 :: 16 word)" by simp
  with \<open>d < 10\<close> have "48 + d = 48" by (simp add: digit_unat)
  with \<open>0 < d\<close> show False by simp
qed

lemma numberToString_nonempty: "numberToString n \<noteq> []"
  by (subst numberToString.simps) simp

lemma numberToString_leading:
  "0 < n \<Longrightarrow> hd (numberToString n) \<noteq> 0x30"
proof (induction n rule: numberToString.induct)
  case (1 n)
  show ?case
  proof (cases "n < 10")
    case True
    with "1.prems" digit_not_zero [of n] show ?thesis
      by (simp add: numberToString.simps [of n])
  next
    case False
    then have "0 < n div 10" by simp
    with False "1.IH" have "hd (numberToString (n div 10)) \<noteq> 0x30" by simp
    with False show ?thesis
      by (simp add: numberToString.simps [of n] numberToString_nonempty)
  qed
qed

lemma concat_map_upt_Suc:
  "concat (map f [0..<Suc n]) = f 0 @ concat (map (\<lambda>i. f (Suc i)) [0..<n])"
proof -
  have "[0..<Suc n] = 0 # map Suc [0..<n]"
    by (simp add: upt_conv_Cons map_Suc_upt del: upt_Suc)
  then show ?thesis by (simp add: o_def del: upt_Suc)
qed

lemma join_concat:
  "join sep xs =
     concat (map (\<lambda>i. xs ! i @ (if Suc i < length xs then sep else [])) [0..<length xs])"
proof (induction sep xs rule: join.induct)
  case (1 sep)
  show ?case by simp
next
  case (2 sep x)
  show ?case by simp
next
  case (3 sep x y ys)
  have "concat (map (\<lambda>i. (x # y # ys) ! i @ (if Suc i < length (x # y # ys) then sep else []))
          [0..<length (x # y # ys)]) =
        (x @ sep) @ concat (map (\<lambda>i. (y # ys) ! i @ (if Suc i < length (y # ys) then sep else []))
          [0..<length (y # ys)])"
    using concat_map_upt_Suc
      [of "\<lambda>i. (x # y # ys) ! i @ (if Suc i < length (x # y # ys) then sep else [])"
          "length (y # ys)"]
    by simp
  with "3.IH" show ?case by simp
qed

text \<open>
  C2. The context block is a function of the result list alone. It is the
  concatenation, over the positions \<open>i\<close> of the list in order, of the entry of the result
  at position \<open>i\<close>: \<open>[i+1]\<close>, a space and the result's title, then its url and its
  snippet on lines of their own, each text whole and unchanged; every entry but the last
  is followed by one more newline. The label's digits are the decimal numeral of
  \<open>i + 1\<close>: digits only, no leading zero, of that value.
\<close>

theorem searchContext_entries:
  "searchContext searchResults =
     concat
       (map (\<lambda>i. js ''['' @ numberToString (i + 1) @ js ''] ''
                 @ SearchResult.title (searchResults ! i)
                 @ js ''\<newline>URL: '' @ SearchResult.url (searchResults ! i)
                 @ js ''\<newline>Content: '' @ snippet (searchResults ! i) @ js ''\<newline>''
                 @ (if i + 1 < length searchResults then js ''\<newline>'' else []))
          [0..<length searchResults])
   \<and> foldl (\<lambda>v d. 10 * v + (unat d - 48)) 0 (numberToString (i + 1)) = i + 1
   \<and> list_all (\<lambda>d. 0x30 \<le> d \<and> d \<le> 0x39) (numberToString (i + 1))
   \<and> hd (numberToString (i + 1)) \<noteq> 0x30"
proof (intro conjI)
  show "searchContext searchResults =
     concat
       (map (\<lambda>i. js ''['' @ numberToString (i + 1) @ js ''] ''
                 @ SearchResult.title (searchResults ! i)
                 @ js ''\<newline>URL: '' @ SearchResult.url (searchResults ! i)
                 @ js ''\<newline>Content: '' @ snippet (searchResults ! i) @ js ''\<newline>''
                 @ (if i + 1 < length searchResults then js ''\<newline>'' else []))
          [0..<length searchResults])"
    unfolding searchContext_def map_index_def join_concat length_map_from
    by (rule arg_cong [where f = concat], rule map_cong) (simp_all add: nth_map_from)
next
  show "foldl (\<lambda>v d. 10 * v + (unat d - 48)) 0 (numberToString (i + 1)) = i + 1"
    by (rule numberToString_value)
next
  show "list_all (\<lambda>d. 0x30 \<le> d \<and> d \<le> 0x39) (numberToString (i + 1))"
    by (rule numberToString_all_digits)
next
  show "hd (numberToString (i + 1)) \<noteq> 0x30"
    by (rule numberToString_leading) simp
qed

subsection \<open>The empty question\<close>

text \<open>
  C5. For the empty question the endpoint answers 400 with an error and leaves the
  world as it was: no client is constructed, nothing is sent to the backend, nothing
  is logged. The search handler returns with its state and the world as they were:
  \<open>searchWeb\<close> is not called and no request is made.
\<close>

theorem empty_question_rejected:
  "POST env fetch (Inr \<lparr>body_query = Some [], body_searchResults = sr\<rparr>) w =
     (\<lparr>json = ErrorJson (js ''Query and search results are required''), status = 400\<rparr>, w)
   \<and> handleSearch env fetch (ui\<lparr>query := []\<rparr>, w) = (ui\<lparr>query := []\<rparr>, w)"
  by (cases sr) (simp_all add: POST_def handleSearch_def trim_def js_def)

subsection \<open>The client singleton\<close>

text \<open>
  C10, amended. \<open>getOpenRouterClient\<close> throws exactly when no client has been constructed
  yet and \<open>OPENROUTER_API_KEY\<close> is unset or the empty string; what it throws is the
  configuration error, and the singleton stays empty. After a successful call the
  singleton holds the returned client, with the key read at construction, and every later
  call returns that client whatever the environment has become.
\<close>

theorem getOpenRouterClient_throws_iff:
  "((\<exists>e. fst (getOpenRouterClient env w) = Inl e) \<longleftrightarrow>
      openRouterClient w = None \<and>
      (OPENROUTER_API_KEY env = None \<or> OPENROUTER_API_KEY env = Some []))
   \<and> (\<forall>e. fst (getOpenRouterClient env w) = Inl e \<longrightarrow>
          e = Error (js ''OpenRouter API key not configured'') \<and> snd (getOpenRouterClient env w) = w)
   \<and> (\<forall>client w'. getOpenRouterClient env w = (Inr client, w') \<longrightarrow>
          (openRouterClient w = None \<longrightarrow> OPENROUTER_API_KEY env = Some (apiKey client))
          \<and> openRouterClient w' = Some client
          \<and> (\<forall>env'. getOpenRouterClient env' w' = (Inr client, w')))"
  by (auto simp: getOpenRouterClient_def new_OpenRouterClient_def split: option.splits if_splits)

theorem getOpenRouterClient_throws_iff_witness:
  "getOpenRouterClient env_with_key world0 =
     (Inr (new_OpenRouterClient (js ''sk-test'')),
      world0\<lparr>openRouterClient := Some (new_OpenRouterClient (js ''sk-test''))\<rparr>)
   \<and> getOpenRouterClient env_without_key
        (world0\<lparr>openRouterClient := Some (new_OpenRouterClient (js ''sk-test''))\<rparr>) =
     (Inr (new_OpenRouterClient (js ''sk-test'')),
      world0\<lparr>openRouterClient := Some (new_OpenRouterClient (js ''sk-test''))\<rparr>)"
proof -
  have first: "getOpenRouterClient env_with_key world0 =
     (Inr (new_OpenRouterClient (js ''sk-test'')),
      world0\<lparr>openRouterClient := Some (new_OpenRouterClient (js ''sk-test''))\<rparr>)"
    by (simp add: getOpenRouterClient_def env_with_key_def world0_def js_def)
  from getOpenRouterClient_throws_iff [of env_with_key world0,
      THEN conjunct2, THEN conjunct2, rule_format, OF first]
  show ?thesis using first by simp
qed

text \<open>
  C10 as stated fails where the variable is set to the empty string: the variable is
  not unset, no client exists, and the call throws.
\<close>

theorem empty_key_counterexample:
  "fst (getOpenRouterClient env_empty_key world0) =
     Inl (Error (js ''OpenRouter API key not configured''))
   \<and> openRouterClient world0 = None
   \<and> OPENROUTER_API_KEY env_empty_key \<noteq> None"
  by (simp add: getOpenRouterClient_def env_empty_key_def world0_def)

subsection \<open>Retrieval\<close>

lemma unreserved_not_surrogate:
  "uriUnreserved c \<Longrightarrow> \<not> isLeadingSurrogate c \<and> \<not> isTrailingSurrogate c"
  unfolding uriUnreserved_def isLeadingSurrogate_def isTrailingSurrogate_def
  by (auto simp: word_le_def)

lemma leading_not_trailing: "isLeadingSurrogate c \<Longrightarrow> \<not> isTrailingSurrogate c"
  unfolding isLeadingSurrogate_def isTrailingSurrogate_def
  by (auto simp: word_le_def)

lemma encodeURIComponent_iff:
  "(isWellFormed s \<longrightarrow> (\<exists>r. encodeURIComponent s = Inr r)) \<and>
   (\<not> isWellFormed s \<longrightarrow> encodeURIComponent s = Inl uri_malformed)"
proof (induction s rule: encodeURIComponent.induct)
  case 1
  show ?case by simp
next
  case (2 c cs)
  show ?case
  proof (cases "uriUnreserved c")
    case True
    then have "isWellFormed (c # cs) = isWellFormed cs"
      using unreserved_not_surrogate [of c] by simp
    with True "2.IH"(1) show ?thesis
      by (cases "isWellFormed cs") auto
  next
    case unres: False
    show ?thesis
    proof (cases "\<not> isLeadingSurrogate c \<and> \<not> isTrailingSurrogate c")
      case True
      then have "isWellFormed (c # cs) = isWellFormed cs" by simp
      with unres True "2.IH"(2) show ?thesis
        by (cases "isWellFormed cs") auto
    next
      case surr: False
      show ?thesis
      proof (cases "isTrailingSurrogate c")
        case True
        then have "\<not> isWellFormed (c # cs)"
          using leading_not_trailing [of c] by auto
        with unres True show ?thesis by simp
      next
        case lead: False
        with surr have l: "isLeadingSurrogate c" by simp
        show ?thesis
        proof (cases cs)
          case Nil
          with unres l lead show ?thesis by simp
        next
          case (Cons d ds)
          show ?thesis
          proof (cases "isTrailingSurrogate d")
            case False
            with unres l lead Cons show ?thesis by simp
          next
            case True
            have "isWellFormed (c # cs) = isWellFormed ds"
              using l True Cons by simp
            moreover have "(isWellFormed ds \<longrightarrow> (\<exists>r. encodeURIComponent ds = Inr r)) \<and>
              (\<not> isWellFormed ds \<longrightarrow> encodeURIComponent ds = Inl uri_malformed)"
              using "2.IH"(3) [OF unres _ lead Cons] surr True by simp
            ultimately show ?thesis
              using unres l lead Cons True by (cases "isWellFormed ds") auto
          qed
        qed
      qed
    qed
  qed
qed

lemma keyword_matches_mock:
  "keyword_matches mockSearchResults lq [] = [] \<or>
   (2 \<le> length (keyword_matches mockSearchResults lq []) \<and>
    length (keyword_matches mockSearchResults lq []) \<le> 5)"
  by (simp add: mockSearchResults_def)

lemma searchWeb_outcome:
  "(if keyword_matches mockSearchResults (toLowerCase q) [] \<noteq> [] \<or> isWellFormed q
    then \<exists>r. searchWeb q = Inr r \<and> 2 \<le> length (results r) \<and> length (results r) \<le> 5
    else searchWeb q = Inl uri_malformed)"
proof (cases "keyword_matches mockSearchResults (toLowerCase q) [] = []")
  case True
  show ?thesis
  proof (cases "isWellFormed q")
    case wf: True
    then obtain r where "encodeURIComponent q = Inr r"
      using encodeURIComponent_iff [of q] by blast
    with True wf show ?thesis
      by (simp add: searchWeb_def genericResults_def)
  next
    case False
    then have "encodeURIComponent q = Inl uri_malformed"
      using encodeURIComponent_iff [of q] by blast
    with True False show ?thesis
      by (simp add: searchWeb_def genericResults_def)
  qed
next
  case False
  with keyword_matches_mock [of "toLowerCase q"] show ?thesis
    by (simp add: searchWeb_def Let_def)
qed

text \<open>
  C9. \<open>searchWeb\<close> is meant to return at least two results for every query, the two
  generic ones when no keyword matches. For the query made of one lone surrogate no
  keyword matches and building the first generic result throws: the call rejects with
  \<open>URIError\<close> instead of returning the two results.
\<close>

theorem searchWeb_lone_surrogate: "searchWeb [0xD800] = Inl uri_malformed"
  by (simp add: searchWeb_def toLowerCase_def mockSearchResults_def js_def genericResults_def
      uriUnreserved_def isLeadingSurrogate_def isTrailingSurrogate_def)

text \<open>
  C4, amended. When \<open>searchWeb\<close> throws, the handler's one \<open>catch\<close> stores the thrown
  error's message as the query's error, stores no response and clears \<open>loading\<close>; the
  synthesize endpoint is not called and nothing is logged.
\<close>

theorem retrieval_failure_is_the_query_error:
  "trim (query ui) \<noteq> [] \<Longrightarrow> searchWeb (query ui) = Inl e \<Longrightarrow>
   handleSearch env fetch (ui, w) =
     (ui\<lparr>loading := False, response := None, error := Some (message e)\<rparr>,
      emit (CallSearchWeb (query ui)) w)"
  by (simp add: handleSearch_def)

text \<open>
  C4 as stated fails for the query made of one lone surrogate: the retrieval failure
  becomes the error shown for the query, and the generation step is never reached.
\<close>

theorem retrieval_failure_counterexample:
  "handleSearch env_with_key backend_answering (idle [0xD800], world0) =
     (\<lparr>query = [0xD800], loading = False, response = None,
       error = Some (js ''URI malformed'')\<rparr>,
      \<lparr>openRouterClient = None, trace = [CallSearchWeb [0xD800]]\<rparr>)"
  by (simp add: handleSearch_def trim_def isWhiteSpace_def idle_def world0_def emit_def
      searchWeb_def toLowerCase_def mockSearchResults_def js_def genericResults_def
      uriUnreserved_def isLeadingSurrogate_def isTrailingSurrogate_def uri_malformed_def)

theorem retrieval_failure_is_the_query_error_witness:
  "trim (query (idle [0xD800])) \<noteq> [] \<and> searchWeb (query (idle [0xD800])) = Inl uri_malformed \<and>
   handleSearch env_with_key backend_answering (idle [0xD800], world0) =
     ((idle [0xD800])\<lparr>loading := False, response := None, error := Some (message uri_malformed)\<rparr>,
      emit (CallSearchWeb (query (idle [0xD800]))) world0)"
proof -
  have t: "trim (query (idle [0xD800])) \<noteq> []"
    by (simp add: trim_def isWhiteSpace_def idle_def)
  have s: "searchWeb (query (idle [0xD800])) = Inl uri_malformed"
    by (simp add: idle_def searchWeb_def toLowerCase_def mockSearchResults_def js_def
        genericResults_def uriUnreserved_def isLeadingSurrogate_def isTrailingSurrogate_def)
  from retrieval_failure_is_the_query_error [OF t s, of env_with_key backend_answering world0]
  show ?thesis using t s by simp
qed

subsection \<open>Generation attempts and failures of the endpoint\<close>







lemma trim_nonempty: "trim q \<noteq> [] \<Longrightarrow> q \<noteq> []"
  by (auto simp: trim_def)














lemma getOpenRouterClient_emit:
  "getOpenRouterClient env w = (Inr client, w1) \<Longrightarrow>
   getOpenRouterClient env (emit ev w) = (Inr client, emit ev w1)"
  by (auto simp: getOpenRouterClient_def emit_def split: option.splits if_splits)





lemma trim_hi: "trim (query (idle (js ''hi''))) \<noteq> []"
  by (simp add: trim_def isWhiteSpace_def idle_def js_def)

lemma searchWeb_hi: "\<exists>found. searchWeb (query (idle (js ''hi''))) = Inr found"
  by (simp add: idle_def searchWeb_def toLowerCase_def mockSearchResults_def js_def
      genericResults_def uriUnreserved_def)


lemma client_with_key:
  "getOpenRouterClient env_with_key world0 =
     (Inr (new_OpenRouterClient (js ''sk-test'')),
      world0\<lparr>openRouterClient := Some (new_OpenRouterClient (js ''sk-test''))\<rparr>)"
  by (simp add: getOpenRouterClient_def env_with_key_def world0_def js_def)




subsection \<open>An empty result list\<close>






subsection \<open>The worked example\<close>

lemma numberToString_1: "numberToString (Suc 0) = js ''1''"
  by (simp add: numberToString.simps js_def)

lemma numberToString_2: "numberToString (Suc (Suc 0)) = js ''2''"
  by (simp add: numberToString.simps js_def)

lemma lowercase_question:
  "toLowerCase (js ''What is artificial intelligence?'') = js ''what is artificial intelligence?''"
  by (simp add: toLowerCase_def js_def)

lemma question_keywords:
  "\<not> js_includes (js ''what is artificial intelligence?'') (js ''climate change'')"
  "js_includes (js ''what is artificial intelligence?'') (js ''artificial intelligence'')"
  by (simp_all add: js_def)

lemma searchWeb_artificial_intelligence:
  "searchWeb (js ''What is artificial intelligence?'') =
     Inr \<lparr>results =
           [\<lparr>SearchResult.title = js ''What is Artificial Intelligence (AI)? | IBM'',
             url = js ''https://www.ibm.com/topics/artificial-intelligence'',
             snippet = js ''Artificial intelligence leverages computers and machines to mimic the problem-solving and decision-making capabilities of the human mind.'',
             domain = js ''ibm.com''\<rparr>,
            \<lparr>SearchResult.title = js ''Artificial Intelligence | Stanford HAI'',
             url = js ''https://hai.stanford.edu/what-ai'',
             snippet = js ''AI is a broad field of computer science concerned with building smart machines capable of performing tasks that typically require human intelligence.'',
             domain = js ''stanford.edu''\<rparr>],
          totalResults = 2\<rparr>"
  by (simp add: searchWeb_def mockSearchResults_def lowercase_question question_keywords)

lemma chat_trace:
  "\<exists>rest. trace (snd (chat env fetch this ms w)) =
           trace w @ CallChatCompletions (chatRequest env this ms) # rest"
  by (simp add: chat_def Let_def emit_def split: sum.splits)

lemma getOpenRouterClient_trace:
  "getOpenRouterClient env w = (r, w') \<Longrightarrow> trace w' = trace w"
  by (auto simp: getOpenRouterClient_def split: option.splits if_splits)

lemma POST_trace:
  assumes "q \<noteq> []" and "getOpenRouterClient env w = (Inr client, w_client)"
  shows "\<exists>rest. trace (snd (POST env fetch
             (Inr \<lparr>body_query = Some q, body_searchResults = Some rs\<rparr>) w)) =
           trace w @ CallChatCompletions (chatRequest env client (messages q rs)) # rest"
proof -
  from chat_trace [of env fetch client "messages q rs" w_client] obtain rest
    where c: "trace (snd (chat env fetch client (messages q rs) w_client)) =
           trace w_client @ CallChatCompletions (chatRequest env client (messages q rs)) # rest"
    by blast
  obtain r wc where ch: "chat env fetch client (messages q rs) w_client = (r, wc)" by force
  with c getOpenRouterClient_trace [OF assms(2)]
  have t: "trace wc = trace w @ CallChatCompletions (chatRequest env client (messages q rs)) # rest"
    by simp
  show ?thesis
  proof (cases r)
    case (Inl e)
    with assms ch t show ?thesis
      by (simp add: POST_def synthesizeSearchResults_def emit_def)
  next
    case (Inr a)
    with assms ch t show ?thesis
      by (simp add: POST_def synthesizeSearchResults_def)
  qed
qed

lemma handleSearch_trace:
  assumes "trim (query ui) \<noteq> []" and "searchWeb (query ui) = Inr found"
    and "fst (getOpenRouterClient env w) = Inr client"
  shows "\<exists>rest. trace (snd (handleSearch env fetch (ui, w))) =
           trace w @
           [CallSearchWeb (query ui),
            CallSynthesize
              (Inr \<lparr>body_query = Some (query ui), body_searchResults = Some (results found)\<rparr>),
            CallChatCompletions
              (chatRequest env client (messages (query ui) (results found)))] @ rest"
proof -
  let ?body = "\<lparr>body_query = Some (query ui), body_searchResults = Some (results found)\<rparr>"
  let ?w2 = "emit (CallSynthesize (Inr ?body)) (emit (CallSearchWeb (query ui)) w)"
  from assms(3) obtain wc where "getOpenRouterClient env w = (Inr client, wc)"
    by (cases "getOpenRouterClient env w") simp
  then have "getOpenRouterClient env ?w2 =
      (Inr client, emit (CallSynthesize (Inr ?body)) (emit (CallSearchWeb (query ui)) wc))"
    by (intro getOpenRouterClient_emit)
  from POST_trace [OF trim_nonempty [OF assms(1)] this, of fetch "results found"] obtain rest
    where p: "trace (snd (POST env fetch (Inr ?body) ?w2)) =
      trace ?w2 @ CallChatCompletions
        (chatRequest env client (messages (query ui) (results found))) # rest" by blast
  obtain reply w3 where po: "POST env fetch (Inr ?body) ?w2 = (reply, w3)" by force
  with p have "trace w3 = trace ?w2 @ CallChatCompletions
        (chatRequest env client (messages (query ui) (results found))) # rest" by simp
  with assms(1,2) po show ?thesis
    by (simp add: handleSearch_def Let_def emit_def)
qed

lemma searchContext_artificial_intelligence:
  "searchContext
     [\<lparr>SearchResult.title = js ''What is Artificial Intelligence (AI)? | IBM'',
        url = js ''https://www.ibm.com/topics/artificial-intelligence'',
        snippet = js ''Artificial intelligence leverages computers and machines to mimic the problem-solving and decision-making capabilities of the human mind.'',
        domain = js ''ibm.com''\<rparr>,
      \<lparr>SearchResult.title = js ''Artificial Intelligence | Stanford HAI'',
        url = js ''https://hai.stanford.edu/what-ai'',
        snippet = js ''AI is a broad field of computer science concerned with building smart machines capable of performing tasks that typically require human intelligence.'',
        domain = js ''stanford.edu''\<rparr>] =
   js ''[1] What is Artificial Intelligence (AI)? | IBM\<newline>URL: https://www.ibm.com/topics/artificial-intelligence\<newline>Content: Artificial intelligence leverages computers and machines to mimic the problem-solving and decision-making capabilities of the human mind.\<newline>\<newline>[2] Artificial Intelligence | Stanford HAI\<newline>URL: https://hai.stanford.edu/what-ai\<newline>Content: AI is a broad field of computer science concerned with building smart machines capable of performing tasks that typically require human intelligence.\<newline>''"
  by (simp add: searchContext_def map_index_def numberToString_1 numberToString_2 js_append)

lemma userPrompt_artificial_intelligence:
  "userPrompt (js ''What is artificial intelligence?'')
     [\<lparr>SearchResult.title = js ''What is Artificial Intelligence (AI)? | IBM'',
        url = js ''https://www.ibm.com/topics/artificial-intelligence'',
        snippet = js ''Artificial intelligence leverages computers and machines to mimic the problem-solving and decision-making capabilities of the human mind.'',
        domain = js ''ibm.com''\<rparr>,
      \<lparr>SearchResult.title = js ''Artificial Intelligence | Stanford HAI'',
        url = js ''https://hai.stanford.edu/what-ai'',
        snippet = js ''AI is a broad field of computer science concerned with building smart machines capable of performing tasks that typically require human intelligence.'',
        domain = js ''stanford.edu''\<rparr>] =
   js ''Question: What is artificial intelligence?\<newline>\<newline>Search Results:\<newline>[1] What is Artificial Intelligence (AI)? | IBM\<newline>URL: https://www.ibm.com/topics/artificial-intelligence\<newline>Content: Artificial intelligence leverages computers and machines to mimic the problem-solving and decision-making capabilities of the human mind.\<newline>\<newline>[2] Artificial Intelligence | Stanford HAI\<newline>URL: https://hai.stanford.edu/what-ai\<newline>Content: AI is a broad field of computer science concerned with building smart machines capable of performing tasks that typically require human intelligence.\<newline>\<newline>\<newline>Please provide a comprehensive answer based on these search results. Include relevant citations using the format [1], [2], etc.''"
  by (simp add: userPrompt_def searchContext_artificial_intelligence js_append)

lemma request_artificial_intelligence:
  "chatRequest env_with_key (new_OpenRouterClient (js ''sk-test''))
     (messages (js ''What is artificial intelligence?'')
        [\<lparr>SearchResult.title = js ''What is Artificial Intelligence (AI)? | IBM'',
        url = js ''https://www.ibm.com/topics/artificial-intelligence'',
        snippet = js ''Artificial intelligence leverages computers and machines to mimic the problem-solving and decision-making capabilities of the human mind.'',
        domain = js ''ibm.com''\<rparr>,
         \<lparr>SearchResult.title = js ''Artificial Intelligence | Stanford HAI'',
        url = js ''https://hai.stanford.edu/what-ai'',
        snippet = js ''AI is a broad field of computer science concerned with building smart machines capable of performing tasks that typically require human intelligence.'',
        domain = js ''stanford.edu''\<rparr>]) =
   \<lparr>endpoint = js ''https://openrouter.ai/api/v1/chat/completions'',
         Authorization = js ''Bearer sk-test'',
         HTTP_Referer = js ''http://localhost:3000'',
         body_model = js ''deepseek/deepseek-chat'',
         body_messages =
           [\<lparr>role = System, content = systemPrompt\<rparr>,
            \<lparr>role = User, content = js ''Question: What is artificial intelligence?\<newline>\<newline>Search Results:\<newline>[1] What is Artificial Intelligence (AI)? | IBM\<newline>URL: https://www.ibm.com/topics/artificial-intelligence\<newline>Content: Artificial intelligence leverages computers and machines to mimic the problem-solving and decision-making capabilities of the human mind.\<newline>\<newline>[2] Artificial Intelligence | Stanford HAI\<newline>URL: https://hai.stanford.edu/what-ai\<newline>Content: AI is a broad field of computer science concerned with building smart machines capable of performing tasks that typically require human intelligence.\<newline>\<newline>\<newline>Please provide a comprehensive answer based on these search results. Include relevant citations using the format [1], [2], etc.''\<rparr>]\<rparr>"
  by (simp add: chatRequest_def new_OpenRouterClient_def env_with_key_def messages_def
      userPrompt_artificial_intelligence js_append)

lemma trim_question: "trim (js ''What is artificial intelligence?'') \<noteq> []"
  by (simp add: trim_def isWhiteSpace_def js_def)

lemma citations_artificial_intelligence:
  "citations
     [\<lparr>SearchResult.title = js ''What is Artificial Intelligence (AI)? | IBM'',
        url = js ''https://www.ibm.com/topics/artificial-intelligence'',
        snippet = js ''Artificial intelligence leverages computers and machines to mimic the problem-solving and decision-making capabilities of the human mind.'',
        domain = js ''ibm.com''\<rparr>,
      \<lparr>SearchResult.title = js ''Artificial Intelligence | Stanford HAI'',
        url = js ''https://hai.stanford.edu/what-ai'',
        snippet = js ''AI is a broad field of computer science concerned with building smart machines capable of performing tasks that typically require human intelligence.'',
        domain = js ''stanford.edu''\<rparr>] =
   [\<lparr>number = 1, title = js ''What is Artificial Intelligence (AI)? | IBM'',
     url = js ''https://www.ibm.com/topics/artificial-intelligence'',
     domain = js ''ibm.com''\<rparr>,
    \<lparr>number = 2, title = js ''Artificial Intelligence | Stanford HAI'',
     url = js ''https://hai.stanford.edu/what-ai'', domain = js ''stanford.edu''\<rparr>]"
  by (simp add: citations_def map_index_def)

lemma trace_artificial_intelligence:
  "take 3 (trace (snd (handleSearch env_with_key fetch
      (idle (js ''What is artificial intelligence?''), world0)))) =
   [CallSearchWeb (js ''What is artificial intelligence?''),
    CallSynthesize
      (Inr \<lparr>body_query = Some (js ''What is artificial intelligence?''),
            body_searchResults = Some
              [\<lparr>SearchResult.title = js ''What is Artificial Intelligence (AI)? | IBM'',
        url = js ''https://www.ibm.com/topics/artificial-intelligence'',
        snippet = js ''Artificial intelligence leverages computers and machines to mimic the problem-solving and decision-making capabilities of the human mind.'',
        domain = js ''ibm.com''\<rparr>,
               \<lparr>SearchResult.title = js ''Artificial Intelligence | Stanford HAI'',
        url = js ''https://hai.stanford.edu/what-ai'',
        snippet = js ''AI is a broad field of computer science concerned with building smart machines capable of performing tasks that typically require human intelligence.'',
        domain = js ''stanford.edu''\<rparr>]\<rparr>),
    CallChatCompletions
      \<lparr>endpoint = js ''https://openrouter.ai/api/v1/chat/completions'',
         Authorization = js ''Bearer sk-test'',
         HTTP_Referer = js ''http://localhost:3000'',
         body_model = js ''deepseek/deepseek-chat'',
         body_messages =
           [\<lparr>role = System, content = systemPrompt\<rparr>,
            \<lparr>role = User, content = js ''Question: What is artificial intelligence?\<newline>\<newline>Search Results:\<newline>[1] What is Artificial Intelligence (AI)? | IBM\<newline>URL: https://www.ibm.com/topics/artificial-intelligence\<newline>Content: Artificial intelligence leverages computers and machines to mimic the problem-solving and decision-making capabilities of the human mind.\<newline>\<newline>[2] Artificial Intelligence | Stanford HAI\<newline>URL: https://hai.stanford.edu/what-ai\<newline>Content: AI is a broad field of computer science concerned with building smart machines capable of performing tasks that typically require human intelligence.\<newline>\<newline>\<newline>Please provide a comprehensive answer based on these search results. Include relevant citations using the format [1], [2], etc.''\<rparr>]\<rparr>]"
proof -
  have q: "query (idle (js ''What is artificial intelligence?'')) =
      js ''What is artificial intelligence?''" by (simp add: idle_def)
  have c: "fst (getOpenRouterClient env_with_key world0) =
      Inr (new_OpenRouterClient (js ''sk-test''))" by (simp add: client_with_key)
  from handleSearch_trace
    [where ui = "idle (js ''What is artificial intelligence?'')" and env = env_with_key
       and w = world0 and fetch = fetch, unfolded q,
     OF trim_question searchWeb_artificial_intelligence c]
  obtain rest where "trace (snd (handleSearch env_with_key fetch
      (idle (js ''What is artificial intelligence?''), world0))) =
     trace world0 @
     [CallSearchWeb (js ''What is artificial intelligence?''),
      CallSynthesize
        (Inr \<lparr>body_query = Some (js ''What is artificial intelligence?''),
              body_searchResults = Some
                [\<lparr>SearchResult.title = js ''What is Artificial Intelligence (AI)? | IBM'',
        url = js ''https://www.ibm.com/topics/artificial-intelligence'',
        snippet = js ''Artificial intelligence leverages computers and machines to mimic the problem-solving and decision-making capabilities of the human mind.'',
        domain = js ''ibm.com''\<rparr>,
                 \<lparr>SearchResult.title = js ''Artificial Intelligence | Stanford HAI'',
        url = js ''https://hai.stanford.edu/what-ai'',
        snippet = js ''AI is a broad field of computer science concerned with building smart machines capable of performing tasks that typically require human intelligence.'',
        domain = js ''stanford.edu''\<rparr>]\<rparr>),
      CallChatCompletions
        (chatRequest env_with_key (new_OpenRouterClient (js ''sk-test''))
           (messages (js ''What is artificial intelligence?'')
              [\<lparr>SearchResult.title = js ''What is Artificial Intelligence (AI)? | IBM'',
        url = js ''https://www.ibm.com/topics/artificial-intelligence'',
        snippet = js ''Artificial intelligence leverages computers and machines to mimic the problem-solving and decision-making capabilities of the human mind.'',
        domain = js ''ibm.com''\<rparr>,
               \<lparr>SearchResult.title = js ''Artificial Intelligence | Stanford HAI'',
        url = js ''https://hai.stanford.edu/what-ai'',
        snippet = js ''AI is a broad field of computer science concerned with building smart machines capable of performing tasks that typically require human intelligence.'',
        domain = js ''stanford.edu''\<rparr>]))] @ rest"
    by auto
  then show ?thesis
    by (simp add: world0_def request_artificial_intelligence)
qed

lemma response_artificial_intelligence:
  "response (fst (handleSearch env_with_key backend_answering
      (idle (js ''What is artificial intelligence?''), world0))) =
   Some \<lparr>answer = Some (js ''An answer [1].''),
         response_citations = citations
           [\<lparr>SearchResult.title = js ''What is Artificial Intelligence (AI)? | IBM'',
        url = js ''https://www.ibm.com/topics/artificial-intelligence'',
        snippet = js ''Artificial intelligence leverages computers and machines to mimic the problem-solving and decision-making capabilities of the human mind.'',
        domain = js ''ibm.com''\<rparr>,
            \<lparr>SearchResult.title = js ''Artificial Intelligence | Stanford HAI'',
        url = js ''https://hai.stanford.edu/what-ai'',
        snippet = js ''AI is a broad field of computer science concerned with building smart machines capable of performing tasks that typically require human intelligence.'',
        domain = js ''stanford.edu''\<rparr>],
         response_searchResults =
           [\<lparr>SearchResult.title = js ''What is Artificial Intelligence (AI)? | IBM'',
        url = js ''https://www.ibm.com/topics/artificial-intelligence'',
        snippet = js ''Artificial intelligence leverages computers and machines to mimic the problem-solving and decision-making capabilities of the human mind.'',
        domain = js ''ibm.com''\<rparr>,
            \<lparr>SearchResult.title = js ''Artificial Intelligence | Stanford HAI'',
        url = js ''https://hai.stanford.edu/what-ai'',
        snippet = js ''AI is a broad field of computer science concerned with building smart machines capable of performing tasks that typically require human intelligence.'',
        domain = js ''stanford.edu''\<rparr>]\<rparr>"
proof -
  have g: "getOpenRouterClient env_with_key w =
       (Inr (new_OpenRouterClient (js ''sk-test'')),
        w\<lparr>openRouterClient := Some (new_OpenRouterClient (js ''sk-test''))\<rparr>)"
    if "openRouterClient w = None" for w
    using that by (simp add: getOpenRouterClient_def env_with_key_def js_def)
  have o: "ok 200" by (simp add: ok_def)
  have q: "js ''What is artificial intelligence?'' \<noteq> []" by (simp add: js_def)
  show ?thesis
    using trim_question q o
    by (simp add: handleSearch_def idle_def Let_def searchWeb_artificial_intelligence
        POST_def g emit_def world0_def synthesizeSearchResults_def chat_def
        backend_answering_def split: prod.splits)
qed

text \<open>
  C8. For the question \<open>What is artificial intelligence?\<close> the retrieval step returns
  exactly two results, IBM's (domain \<open>ibm.com\<close>) and then Stanford HAI's (domain
  \<open>stanford.edu\<close>); their citation table is number 1 with \<open>ibm.com\<close> and number 2 with
  \<open>stanford.edu\<close>, and it is the table of the response the handler stores. The context
  block holds both snippets, labelled \<open>[1]\<close> and \<open>[2]\<close> in that order, and whatever the
  backend does, the request the handler's run sends to it carries that block in its user
  message.
\<close>

theorem artificial_intelligence_scenario:
  "\<exists>ibm stanford.
      searchWeb (js ''What is artificial intelligence?'') =
        Inr \<lparr>results = [ibm, stanford], totalResults = 2\<rparr>
      \<and> SearchResult.title ibm = js ''What is Artificial Intelligence (AI)? | IBM''
      \<and> SearchResult.domain ibm = js ''ibm.com''
      \<and> SearchResult.title stanford = js ''Artificial Intelligence | Stanford HAI''
      \<and> SearchResult.domain stanford = js ''stanford.edu''
      \<and> citations [ibm, stanford] =
          [\<lparr>number = 1, title = js ''What is Artificial Intelligence (AI)? | IBM'',
            url = js ''https://www.ibm.com/topics/artificial-intelligence'',
            domain = js ''ibm.com''\<rparr>,
           \<lparr>number = 2, title = js ''Artificial Intelligence | Stanford HAI'',
            url = js ''https://hai.stanford.edu/what-ai'', domain = js ''stanford.edu''\<rparr>]
      \<and> searchContext [ibm, stanford] =
          js ''[1] What is Artificial Intelligence (AI)? | IBM\<newline>URL: https://www.ibm.com/topics/artificial-intelligence\<newline>Content: Artificial intelligence leverages computers and machines to mimic the problem-solving and decision-making capabilities of the human mind.\<newline>\<newline>[2] Artificial Intelligence | Stanford HAI\<newline>URL: https://hai.stanford.edu/what-ai\<newline>Content: AI is a broad field of computer science concerned with building smart machines capable of performing tasks that typically require human intelligence.\<newline>''
      \<and> take 3 (trace (snd (handleSearch env_with_key fetch
            (idle (js ''What is artificial intelligence?''), world0)))) =
          [CallSearchWeb (js ''What is artificial intelligence?''),
           CallSynthesize
             (Inr \<lparr>body_query = Some (js ''What is artificial intelligence?''),
                   body_searchResults = Some [ibm, stanford]\<rparr>),
           CallChatCompletions
             \<lparr>endpoint = js ''https://openrouter.ai/api/v1/chat/completions'',
         Authorization = js ''Bearer sk-test'',
         HTTP_Referer = js ''http://localhost:3000'',
         body_model = js ''deepseek/deepseek-chat'',
         body_messages =
           [\<lparr>role = System, content = systemPrompt\<rparr>,
            \<lparr>role = User, content = js ''Question: What is artificial intelligence?\<newline>\<newline>Search Results:\<newline>[1] What is Artificial Intelligence (AI)? | IBM\<newline>URL: https://www.ibm.com/topics/artificial-intelligence\<newline>Content: Artificial intelligence leverages computers and machines to mimic the problem-solving and decision-making capabilities of the human mind.\<newline>\<newline>[2] Artificial Intelligence | Stanford HAI\<newline>URL: https://hai.stanford.edu/what-ai\<newline>Content: AI is a broad field of computer science concerned with building smart machines capable of performing tasks that typically require human intelligence.\<newline>\<newline>\<newline>Please provide a comprehensive answer based on these search results. Include relevant citations using the format [1], [2], etc.''\<rparr>]\<rparr>]
      \<and> response (fst (handleSearch env_with_key backend_answering
            (idle (js ''What is artificial intelligence?''), world0))) =
          Some \<lparr>answer = Some (js ''An answer [1].''),
                response_citations = citations [ibm, stanford],
                response_searchResults = [ibm, stanford]\<rparr>"
proof (intro exI conjI)
  show "searchWeb (js ''What is artificial intelligence?'') =
        Inr \<lparr>results =
               [\<lparr>SearchResult.title = js ''What is Artificial Intelligence (AI)? | IBM'',
        url = js ''https://www.ibm.com/topics/artificial-intelligence'',
        snippet = js ''Artificial intelligence leverages computers and machines to mimic the problem-solving and decision-making capabilities of the human mind.'',
        domain = js ''ibm.com''\<rparr>,
                \<lparr>SearchResult.title = js ''Artificial Intelligence | Stanford HAI'',
        url = js ''https://hai.stanford.edu/what-ai'',
        snippet = js ''AI is a broad field of computer science concerned with building smart machines capable of performing tasks that typically require human intelligence.'',
        domain = js ''stanford.edu''\<rparr>],
             totalResults = 2\<rparr>"
    by (rule searchWeb_artificial_intelligence)
next
  show "citations
     [\<lparr>SearchResult.title = js ''What is Artificial Intelligence (AI)? | IBM'',
        url = js ''https://www.ibm.com/topics/artificial-intelligence'',
        snippet = js ''Artificial intelligence leverages computers and machines to mimic the problem-solving and decision-making capabilities of the human mind.'',
        domain = js ''ibm.com''\<rparr>,
      \<lparr>SearchResult.title = js ''Artificial Intelligence | Stanford HAI'',
        url = js ''https://hai.stanford.edu/what-ai'',
        snippet = js ''AI is a broad field of computer science concerned with building smart machines capable of performing tasks that typically require human intelligence.'',
        domain = js ''stanford.edu''\<rparr>] =
   [\<lparr>number = 1, title = js ''What is Artificial Intelligence (AI)? | IBM'',
     url = js ''https://www.ibm.com/topics/artificial-intelligence'',
     domain = js ''ibm.com''\<rparr>,
    \<lparr>number = 2, title = js ''Artificial Intelligence | Stanford HAI'',
     url = js ''https://hai.stanford.edu/what-ai'', domain = js ''stanford.edu''\<rparr>]"
    by (rule citations_artificial_intelligence)
next
  show "searchContext
     [\<lparr>SearchResult.title = js ''What is Artificial Intelligence (AI)? | IBM'',
        url = js ''https://www.ibm.com/topics/artificial-intelligence'',
        snippet = js ''Artificial intelligence leverages computers and machines to mimic the problem-solving and decision-making capabilities of the human mind.'',
        domain = js ''ibm.com''\<rparr>,
      \<lparr>SearchResult.title = js ''Artificial Intelligence | Stanford HAI'',
        url = js ''https://hai.stanford.edu/what-ai'',
        snippet = js ''AI is a broad field of computer science concerned with building smart machines capable of performing tasks that typically require human intelligence.'',
        domain = js ''stanford.edu''\<rparr>] =
   js ''[1] What is Artificial Intelligence (AI)? | IBM\<newline>URL: https://www.ibm.com/topics/artificial-intelligence\<newline>Content: Artificial intelligence leverages computers and machines to mimic the problem-solving and decision-making capabilities of the human mind.\<newline>\<newline>[2] Artificial Intelligence | Stanford HAI\<newline>URL: https://hai.stanford.edu/what-ai\<newline>Content: AI is a broad field of computer science concerned with building smart machines capable of performing tasks that typically require human intelligence.\<newline>''"
    by (rule searchContext_artificial_intelligence)
next
  show "take 3 (trace (snd (handleSearch env_with_key fetch
      (idle (js ''What is artificial intelligence?''), world0)))) =
   [CallSearchWeb (js ''What is artificial intelligence?''),
    CallSynthesize
      (Inr \<lparr>body_query = Some (js ''What is artificial intelligence?''),
            body_searchResults = Some
              [\<lparr>SearchResult.title = js ''What is Artificial Intelligence (AI)? | IBM'',
        url = js ''https://www.ibm.com/topics/artificial-intelligence'',
        snippet = js ''Artificial intelligence leverages computers and machines to mimic the problem-solving and decision-making capabilities of the human mind.'',
        domain = js ''ibm.com''\<rparr>,
               \<lparr>SearchResult.title = js ''Artificial Intelligence | Stanford HAI'',
        url = js ''https://hai.stanford.edu/what-ai'',
        snippet = js ''AI is a broad field of computer science concerned with building smart machines capable of performing tasks that typically require human intelligence.'',
        domain = js ''stanford.edu''\<rparr>]\<rparr>),
    CallChatCompletions
      \<lparr>endpoint = js ''https://openrouter.ai/api/v1/chat/completions'',
         Authorization = js ''Bearer sk-test'',
         HTTP_Referer = js ''http://localhost:3000'',
         body_model = js ''deepseek/deepseek-chat'',
         body_messages =
           [\<lparr>role = System, content = systemPrompt\<rparr>,
            \<lparr>role = User, content = js ''Question: What is artificial intelligence?\<newline>\<newline>Search Results:\<newline>[1] What is Artificial Intelligence (AI)? | IBM\<newline>URL: https://www.ibm.com/topics/artificial-intelligence\<newline>Content: Artificial intelligence leverages computers and machines to mimic the problem-solving and decision-making capabilities of the human mind.\<newline>\<newline>[2] Artificial Intelligence | Stanford HAI\<newline>URL: https://hai.stanford.edu/what-ai\<newline>Content: AI is a broad field of computer science concerned with building smart machines capable of performing tasks that typically require human intelligence.\<newline>\<newline>\<newline>Please provide a comprehensive answer based on these search results. Include relevant citations using the format [1], [2], etc.''\<rparr>]\<rparr>]"
    by (rule trace_artificial_intelligence)
next
  show "response (fst (handleSearch env_with_key backend_answering
      (idle (js ''What is artificial intelligence?''), world0))) =
   Some \<lparr>answer = Some (js ''An answer [1].''),
         response_citations = citations
           [\<lparr>SearchResult.title = js ''What is Artificial Intelligence (AI)? | IBM'',
        url = js ''https://www.ibm.com/topics/artificial-intelligence'',
        snippet = js ''Artificial intelligence leverages computers and machines to mimic the problem-solving and decision-making capabilities of the human mind.'',
        domain = js ''ibm.com''\<rparr>,
            \<lparr>SearchResult.title = js ''Artificial Intelligence | Stanford HAI'',
        url = js ''https://hai.stanford.edu/what-ai'',
        snippet = js ''AI is a broad field of computer science concerned with building smart machines capable of performing tasks that typically require human intelligence.'',
        domain = js ''stanford.edu''\<rparr>],
         response_searchResults =
           [\<lparr>SearchResult.title = js ''What is Artificial Intelligence (AI)? | IBM'',
        url = js ''https://www.ibm.com/topics/artificial-intelligence'',
        snippet = js ''Artificial intelligence leverages computers and machines to mimic the problem-solving and decision-making capabilities of the human mind.'',
        domain = js ''ibm.com''\<rparr>,
            \<lparr>SearchResult.title = js ''Artificial Intelligence | Stanford HAI'',
        url = js ''https://hai.stanford.edu/what-ai'',
        snippet = js ''AI is a broad field of computer science concerned with building smart machines capable of performing tasks that typically require human intelligence.'',
        domain = js ''stanford.edu''\<rparr>]\<rparr>"
    by (rule response_artificial_intelligence)
qed simp_all

subsection \<open>Retrieval on the store\<close>

lemma those_eq_Some: "those xs = Some ys \<longleftrightarrow> xs = map Some ys"
proof (induction xs arbitrary: ys)
  case Nil
  then show ?case by auto
next
  case (Cons x xs)
  then show ?case by (cases x; cases ys) (auto split: option.splits)
qed

lemma object_at_append: "object_at s a = Some r \<Longrightarrow> object_at (s @ new) a = Some r"
  by (auto simp: object_at_def nth_append split: if_splits)

lemma array_at_append: "array_at s a = Some xs \<Longrightarrow> array_at (s @ new) a = Some xs"
  by (auto simp: array_at_def nth_append split: if_splits)

lemma objects_append:
  "map (object_at s) xs = map Some rs \<Longrightarrow> map (object_at (s @ new)) xs = map Some rs"
proof (induction xs arbitrary: rs)
  case Nil
  then show ?case by simp
next
  case (Cons x xs)
  then show ?case by (cases rs) (auto simp: object_at_append)
qed

lemma read_results_append:
  assumes "read_results s a = Some rs"
  shows "read_results (s @ new) a = Some rs"
proof -
  from assms obtain xs where xs: "array_at s a = Some xs" and m: "map (object_at s) xs = map Some rs"
    by (auto simp: read_results_def those_eq_Some split: option.splits)
  from m have "map (object_at (s @ new)) xs = map Some rs"
    by (rule objects_append)
  with array_at_append [OF xs] show ?thesis
    by (simp add: read_results_def those_eq_Some)
qed

lemma array_at_alloc:
  "alloc (Array xs) s = (a, s') \<Longrightarrow> a = length s \<and> s' = s @ [Array xs] \<and> array_at s' a = Some xs"
  by (auto simp: alloc_def array_at_def)

lemma new_objects_spec:
  "new_objects rs s = (as, s') \<Longrightarrow>
     (\<exists>new. s' = s @ new) \<and> map (object_at s') as = map Some rs"
proof (induction rs arbitrary: s as s')
  case Nil
  then show ?case by simp
next
  case (Cons r rs)
  obtain bs s2 where rec: "new_objects rs (s @ [Object r]) = (bs, s2)" by force
  with Cons.prems have as: "as = length s # bs" and s': "s' = s2"
    by (simp_all add: alloc_def)
  from Cons.IH [OF rec] obtain new where new: "s2 = (s @ [Object r]) @ new"
    and objs: "map (object_at s2) bs = map Some rs" by blast
  have "object_at (s @ [Object r]) (length s) = Some r"
    by (simp add: object_at_def)
  then have "object_at s2 (length s) = Some r"
    unfolding new by (rule object_at_append)
  with new objs as s' show ?case by auto
qed

lemma new_array_spec:
  assumes "new_array rs s = (a, s')"
  shows "(\<exists>new. s' = s @ new) \<and> length s \<le> a \<and> read_results s' a = Some rs"
proof -
  obtain as s1 where o: "new_objects rs s = (as, s1)" by force
  with assms have al: "alloc (Array as) s1 = (a, s')" by (simp add: new_array_def)
  from new_objects_spec [OF o] obtain new where new: "s1 = s @ new"
    and objs: "map (object_at s1) as = map Some rs" by blast
  from array_at_alloc [OF al] have a: "a = length s1" and s': "s' = s1 @ [Array as]"
    and arr: "array_at s' a = Some as" by blast+
  have "map (object_at s') as = map Some rs"
    using objs unfolding s' by (rule objects_append)
  with arr new a s' show ?thesis
    by (simp add: read_results_def those_eq_Some)
qed

lemma table_ok_append: "table_ok refs vals s \<Longrightarrow> table_ok refs vals (s @ new)"
  unfolding table_ok_def
  by (erule list_all2_mono) (auto simp: read_results_append)

lemma load_table_spec:
  "load_table vals s = (refs, s') \<Longrightarrow> (\<exists>new. s' = s @ new) \<and> table_ok refs vals s'"
proof (induction vals arbitrary: s refs s')
  case Nil
  then show ?case by (simp add: table_ok_def)
next
  case (Cons entry vals)
  obtain keyword rs where entry: "entry = (keyword, rs)" by force
  obtain a s1 where na: "new_array rs s = (a, s1)" by force
  obtain table s2 where lt: "load_table vals s1 = (table, s2)" by force
  from Cons.prems entry na lt have refs: "refs = (keyword, a) # table" and s': "s' = s2"
    by simp_all
  from new_array_spec [OF na] obtain new1 where n1: "s1 = s @ new1"
    and rd: "read_results s1 a = Some rs" by blast
  from Cons.IH [OF lt] obtain new2 where n2: "s2 = s1 @ new2" and ok: "table_ok table vals s2"
    by blast
  from rd have "read_results s2 a = Some rs" unfolding n2 by (rule read_results_append)
  with ok n1 n2 refs s' entry show ?case by (simp add: table_ok_def)
qed

lemma module_table_ok: "table_ok mockSearchResults_refs mockSearchResults (module_store @ earlier)"
proof -
  have "load_table mockSearchResults [] = (mockSearchResults_refs, module_store)"
    by (simp add: mockSearchResults_refs_def module_store_def)
  from load_table_spec [OF this] show ?thesis by (simp add: table_ok_append)
qed

lemma elements_read: "read_results s a = Some rs \<Longrightarrow> length (elements s a) = length rs"
  by (auto simp: read_results_def elements_def those_eq_Some split: option.splits
      dest: arg_cong [where f = length])

lemma read_concat:
  assumes "read_results s a = Some xs" and "read_results s b = Some ys"
    and "alloc (Array (elements s a @ elements s b)) s = (c, s')"
  shows "read_results s' c = Some (xs @ ys)"
proof -
  from assms(1) obtain as where as: "array_at s a = Some as" "map (object_at s) as = map Some xs"
    by (auto simp: read_results_def those_eq_Some split: option.splits)
  from assms(2) obtain bs where bs: "array_at s b = Some bs" "map (object_at s) bs = map Some ys"
    by (auto simp: read_results_def those_eq_Some split: option.splits)
  from as(1) bs(1) have el: "elements s a @ elements s b = as @ bs"
    by (simp add: elements_def)
  from array_at_alloc [OF assms(3) [unfolded el]]
  have s': "s' = s @ [Array (as @ bs)]" and arr: "array_at s' c = Some (as @ bs)" by blast+
  have "map (object_at s) (as @ bs) = map Some (xs @ ys)" using as(2) bs(2) by simp
  then have "map (object_at s') (as @ bs) = map Some (xs @ ys)"
    unfolding s' by (rule objects_append)
  with arr show ?thesis by (simp add: read_results_def those_eq_Some)
qed

lemma keyword_matches_st_spec:
  "table_ok refs vals s \<Longrightarrow> read_results s found = Some acc \<Longrightarrow>
   keyword_matches_st refs lq found s = (found', s') \<Longrightarrow>
     (\<exists>new. s' = s @ new) \<and> read_results s' found' = Some (keyword_matches vals lq acc)"
proof (induction refs arbitrary: vals s found acc)
  case Nil
  then show ?case by (simp add: table_ok_def)
next
  case (Cons ref refs)
  obtain keyword mockResults where ref: "ref = (keyword, mockResults)" by force
  from Cons.prems(1) ref obtain rs vals' where vals: "vals = (keyword, rs) # vals'"
    and rd: "read_results s mockResults = Some rs" and ok: "table_ok refs vals' s"
    by (auto simp: table_ok_def list_all2_Cons1)
  show ?case
  proof (cases "js_includes lq keyword")
    case False
    with Cons.prems(3) ref have "keyword_matches_st refs lq found s = (found', s')" by simp
    from Cons.IH [OF ok Cons.prems(2) this] False vals show ?thesis by simp
  next
    case True
    obtain c s1 where al: "alloc (Array (elements s found @ elements s mockResults)) s = (c, s1)"
      by force
    with Cons.prems(3) ref True have rec: "keyword_matches_st refs lq c s1 = (found', s')"
      by simp
    from read_concat [OF Cons.prems(2) rd al] have rc: "read_results s1 c = Some (acc @ rs)" .
    from al have s1: "s1 = s @ [Array (elements s found @ elements s mockResults)]"
      by (simp add: alloc_def)
    from ok have "table_ok refs vals' s1" unfolding s1 by (rule table_ok_append)
    from Cons.IH [OF this rc rec] True vals s1 show ?thesis by auto
  qed
qed

lemma keyword_matches_st_append:
  "keyword_matches_st refs lq found s = (found', s') \<Longrightarrow> \<exists>new. s' = s @ new"
proof (induction refs arbitrary: s found)
  case Nil
  then show ?case by simp
next
  case (Cons ref refs)
  obtain keyword mockResults where ref: "ref = (keyword, mockResults)" by force
  show ?case
  proof (cases "js_includes lq keyword")
    case False
    with Cons.prems ref have "keyword_matches_st refs lq found s = (found', s')" by simp
    from Cons.IH [OF this] show ?thesis .
  next
    case True
    with Cons.prems ref have
      "keyword_matches_st refs lq (length s)
         (s @ [Array (elements s found @ elements s mockResults)]) = (found', s')"
      by (simp add: alloc_def)
    from Cons.IH [OF this] show ?thesis by auto
  qed
qed

lemma searchWeb_st_stages:
  assumes "keyword_matches_st mockSearchResults_refs (toLowerCase q) (length s) (s @ [Array []]) =
             (found, s1)"
  shows "searchWeb_st q s =
     (if length (elements s1 found) = 0 then
        (case genericResults q of
           Inl e \<Rightarrow> (Inl e, s1)
         | Inr generic \<Rightarrow>
             (case new_array generic s1 of
                (a, s2) \<Rightarrow>
                  (Inr (length s2, length (elements s2 a)),
                   s2 @ [Array (take 10 (elements s2 a))])))
      else (Inr (length s1, length (elements s1 found)),
            s1 @ [Array (take 10 (elements s1 found))]))"
  using assms
  by (simp add: searchWeb_st_def alloc_def Let_def split: prod.splits sum.splits)

lemma array_at_last: "array_at (s @ [Array xs]) (length s) = Some xs"
  by (simp add: array_at_def)

lemma searchWeb_st_fresh:
  assumes "searchWeb_st q s = (r, s')"
  shows "(\<exists>new. s' = s @ new) \<and>
     (\<forall>a n. r = Inr (a, n) \<longrightarrow>
        length s \<le> a \<and> a < length s' \<and> (\<exists>xs. array_at s' a = Some xs \<and> length xs \<le> 10))"
proof -
  obtain found s1 where km:
    "keyword_matches_st mockSearchResults_refs (toLowerCase q) (length s) (s @ [Array []]) =
       (found, s1)" by force
  from keyword_matches_st_append [OF km] obtain new1 where s1: "s1 = s @ [Array []] @ new1"
    by auto
  note st = searchWeb_st_stages [OF km]
  show ?thesis
  proof (cases "length (elements s1 found) = 0")
    case False
    with st assms have r: "r = Inr (length s1, length (elements s1 found))"
      and s': "s' = s1 @ [Array (take 10 (elements s1 found))]" by simp_all
    from s' have "array_at s' (length s1) = Some (take 10 (elements s1 found))"
      by (simp add: array_at_last)
    with r s' s1 show ?thesis by auto
  next
    case True
    show ?thesis
    proof (cases "genericResults q")
      case (Inl e)
      with True st assms s1 show ?thesis by auto
    next
      case (Inr generic)
      obtain a s2 where na: "new_array generic s1 = (a, s2)" by force
      from new_array_spec [OF na] obtain new2 where s2: "s2 = s1 @ new2" by blast
      from True Inr na st assms have r: "r = Inr (length s2, length (elements s2 a))"
        and s': "s' = s2 @ [Array (take 10 (elements s2 a))]" by simp_all
      from s' have "array_at s' (length s2) = Some (take 10 (elements s2 a))"
        by (simp add: array_at_last)
      with r s' s1 s2 show ?thesis by auto
    qed
  qed
qed

lemma read_take:
  assumes "read_results s a = Some rs"
  shows "read_results (s @ [Array (take n (elements s a))]) (length s) = Some (take n rs)"
proof -
  from assms obtain as where as: "array_at s a = Some as" "map (object_at s) as = map Some rs"
    by (auto simp: read_results_def those_eq_Some split: option.splits)
  then have el: "elements s a = as" by (simp add: elements_def)
  from as(2) have "map (object_at s) (take n as) = map Some (take n rs)"
    by (simp add: take_map [symmetric])
  then have "map (object_at (s @ [Array (take n as)])) (take n as) = map Some (take n rs)"
    by (rule objects_append)
  then show ?thesis
    by (simp add: read_results_def array_at_last el those_eq_Some)
qed

lemma read_empty: "read_results (s @ [Array []]) (length s) = Some []"
  by (simp add: read_results_def array_at_last)

lemma searchWeb_st_refines:
  assumes "searchWeb_st q (module_store @ earlier) = (r, s')"
  shows "case r of
           Inl e \<Rightarrow> searchWeb q = Inl e
         | Inr (a, n) \<Rightarrow>
             \<exists>rs. read_results s' a = Some rs \<and> searchWeb q = Inr \<lparr>results = rs, totalResults = n\<rparr>"
proof -
  let ?s = "module_store @ earlier"
  obtain found s1 where km:
    "keyword_matches_st mockSearchResults_refs (toLowerCase q) (length ?s) (?s @ [Array []]) =
       (found, s1)" by force
  have ok: "table_ok mockSearchResults_refs mockSearchResults (?s @ [Array []])"
    using module_table_ok [of "earlier @ [Array []]"] by simp
  from keyword_matches_st_spec [OF ok read_empty km]
  have rd: "read_results s1 found = Some (keyword_matches mockSearchResults (toLowerCase q) [])"
    by simp
  note len = elements_read [OF rd]
  note st = searchWeb_st_stages [OF km]
  show ?thesis
  proof (cases "length (elements s1 found) = 0")
    case False
    with st assms have r: "r = Inr (length s1, length (elements s1 found))"
      and s': "s' = s1 @ [Array (take 10 (elements s1 found))]" by simp_all
    from read_take [OF rd, of 10] s' have
      "read_results s' (length s1) =
         Some (take 10 (keyword_matches mockSearchResults (toLowerCase q) []))" by simp
    with r False len show ?thesis by (simp add: searchWeb_def Let_def)
  next
    case True
    with len have none: "keyword_matches mockSearchResults (toLowerCase q) [] = []" by simp
    show ?thesis
    proof (cases "genericResults q")
      case (Inl e)
      with True st assms none show ?thesis by (simp add: searchWeb_def)
    next
      case (Inr generic)
      obtain a s2 where na: "new_array generic s1 = (a, s2)" by force
      from new_array_spec [OF na] have rg: "read_results s2 a = Some generic" by blast
      from True Inr na st assms have r: "r = Inr (length s2, length (elements s2 a))"
        and s': "s' = s2 @ [Array (take 10 (elements s2 a))]" by simp_all
      from read_take [OF rg, of 10] s' have "read_results s' (length s2) = Some (take 10 generic)"
        by simp
      with r Inr none elements_read [OF rg] show ?thesis by (simp add: searchWeb_def)
    qed
  qed
qed

text \<open>
  C7. A call of \<open>searchWeb\<close> leaves every cell of the store as it was, so no stored
  result and no stored array is changed; the array it returns is a new cell, allocated
  by the call, of at most 10 elements. On a store that holds the loaded module the
  returned array reads as the results of \<open>searchWeb\<close>, in order, a list of at most 10,
  and a result is returned whenever a keyword matches or the query is well-formed.
\<close>

theorem searchWeb_bounded_fresh_unmutated:
  assumes "searchWeb_st q s = (r, s')"
  shows "take (length s) s' = s
    \<and> (\<forall>a n. r = Inr (a, n) \<longrightarrow>
          length s \<le> a \<and> a < length s' \<and> (\<exists>xs. array_at s' a = Some xs \<and> length xs \<le> 10))
    \<and> (\<forall>earlier. s = module_store @ earlier \<longrightarrow>
          (case r of
             Inl e \<Rightarrow> searchWeb q = Inl e
           | Inr (a, n) \<Rightarrow>
               \<exists>rs. read_results s' a = Some rs \<and> length rs \<le> 10
                 \<and> searchWeb q = Inr \<lparr>results = rs, totalResults = n\<rparr>)
          \<and> (keyword_matches mockSearchResults (toLowerCase q) [] \<noteq> [] \<or> isWellFormed q
               \<longrightarrow> (\<exists>a n. r = Inr (a, n))))
    \<and> (\<forall>found. searchWeb q = Inr found \<longrightarrow> length (results found) \<le> 10)"
proof -
  from searchWeb_st_fresh [OF assms] have unchanged: "take (length s) s' = s" by auto
  from searchWeb_st_fresh [OF assms]
  have fresh: "\<forall>a n. r = Inr (a, n) \<longrightarrow>
      length s \<le> a \<and> a < length s' \<and> (\<exists>xs. array_at s' a = Some xs \<and> length xs \<le> 10)"
    by blast
  have bound: "\<forall>found. searchWeb q = Inr found \<longrightarrow> length (results found) \<le> 10"
    by (auto simp: searchWeb_def Let_def split: sum.splits if_splits)
  have refines: "\<forall>earlier. s = module_store @ earlier \<longrightarrow>
          (case r of
             Inl e \<Rightarrow> searchWeb q = Inl e
           | Inr (a, n) \<Rightarrow>
               \<exists>rs. read_results s' a = Some rs \<and> length rs \<le> 10
                 \<and> searchWeb q = Inr \<lparr>results = rs, totalResults = n\<rparr>)
          \<and> (keyword_matches mockSearchResults (toLowerCase q) [] \<noteq> [] \<or> isWellFormed q
               \<longrightarrow> (\<exists>a n. r = Inr (a, n)))"
  proof (intro allI impI)
    fix earlier
    assume s: "s = module_store @ earlier"
    from searchWeb_st_refines [OF assms [unfolded s]]
    have ref: "case r of
           Inl e \<Rightarrow> searchWeb q = Inl e
         | Inr (a, n) \<Rightarrow>
             \<exists>rs. read_results s' a = Some rs
               \<and> searchWeb q = Inr \<lparr>results = rs, totalResults = n\<rparr>" .
    from ref bound have first: "case r of
             Inl e \<Rightarrow> searchWeb q = Inl e
           | Inr (a, n) \<Rightarrow>
               \<exists>rs. read_results s' a = Some rs \<and> length rs \<le> 10
                 \<and> searchWeb q = Inr \<lparr>results = rs, totalResults = n\<rparr>"
      by (cases r) auto
    have second: "keyword_matches mockSearchResults (toLowerCase q) [] \<noteq> [] \<or> isWellFormed q
               \<longrightarrow> (\<exists>a n. r = Inr (a, n))"
    proof
      assume "keyword_matches mockSearchResults (toLowerCase q) [] \<noteq> [] \<or> isWellFormed q"
      with searchWeb_outcome [of q] obtain found where "searchWeb q = Inr found" by auto
      with ref show "\<exists>a n. r = Inr (a, n)" by (cases r) auto
    qed
    from first second show "(case r of
             Inl e \<Rightarrow> searchWeb q = Inl e
           | Inr (a, n) \<Rightarrow>
               \<exists>rs. read_results s' a = Some rs \<and> length rs \<le> 10
                 \<and> searchWeb q = Inr \<lparr>results = rs, totalResults = n\<rparr>)
          \<and> (keyword_matches mockSearchResults (toLowerCase q) [] \<noteq> [] \<or> isWellFormed q
               \<longrightarrow> (\<exists>a n. r = Inr (a, n)))" ..
  qed
  from unchanged fresh refines bound show ?thesis by blast
qed

lemma mockSearchResults_refs_value:
  "mockSearchResults_refs = [(js ''climate change'', 3), (js ''artificial intelligence'', 6)]"
  by (simp add: mockSearchResults_refs_def mockSearchResults_def new_array_def alloc_def)

lemma module_store_arrays:
  "length module_store = 7 \<and> module_store ! 3 = Array [0, 1, 2] \<and> module_store ! 6 = Array [4, 5]"
  by (simp add: module_store_def mockSearchResults_def new_array_def alloc_def)

lemma searchWeb_st_artificial_intelligence:
  "searchWeb_st (js ''What is artificial intelligence?'') module_store =
     (Inr (9, 2), module_store @ [Array [], Array [4, 5], Array [4, 5]])"
  using module_store_arrays
  by (simp add: searchWeb_st_def mockSearchResults_refs_value lowercase_question
      question_keywords alloc_def elements_def array_at_def nth_append)

theorem searchWeb_bounded_fresh_unmutated_witness:
  "searchWeb_st (js ''What is artificial intelligence?'') module_store =
     (Inr (9, 2), module_store @ [Array [], Array [4, 5], Array [4, 5]])
   \<and> take (length module_store) (module_store @ [Array [], Array [4, 5], Array [4, 5]]) =
       module_store
   \<and> length module_store \<le> 9
   \<and> array_at (module_store @ [Array [], Array [4, 5], Array [4, 5]]) 9 = Some [4, 5]
   \<and> (\<exists>rs. read_results (module_store @ [Array [], Array [4, 5], Array [4, 5]]) 9 = Some rs
         \<and> length rs \<le> 10
         \<and> searchWeb (js ''What is artificial intelligence?'') =
             Inr \<lparr>results = rs, totalResults = 2\<rparr>)"
proof -
  note run = searchWeb_st_artificial_intelligence
  note facts = searchWeb_bounded_fresh_unmutated [OF run]
  from facts have "take (length module_store)
      (module_store @ [Array [], Array [4, 5], Array [4, 5]]) = module_store" by blast
  moreover from facts have "length module_store \<le> 9" by blast
  moreover have "array_at (module_store @ [Array [], Array [4, 5], Array [4, 5]]) 9 = Some [4, 5]"
    using module_store_arrays by (simp add: array_at_def nth_append)
  moreover from facts have "\<forall>earlier. module_store = module_store @ earlier \<longrightarrow>
      (\<exists>rs. read_results (module_store @ [Array [], Array [4, 5], Array [4, 5]]) 9 = Some rs
         \<and> length rs \<le> 10
         \<and> searchWeb (js ''What is artificial intelligence?'') =
             Inr \<lparr>results = rs, totalResults = 2\<rparr>)"
    by simp
  then have "\<exists>rs. read_results (module_store @ [Array [], Array [4, 5], Array [4, 5]]) 9 = Some rs
         \<and> length rs \<le> 10
         \<and> searchWeb (js ''What is artificial intelligence?'') =
             Inr \<lparr>results = rs, totalResults = 2\<rparr>"
    by simp
  ultimately show ?thesis using run by blast
qed

subsection \<open>The citation table\<close>

lemma handleSearch_response:
  assumes "trim (query ui) \<noteq> []"
    and "response (fst (handleSearch env fetch (ui, w))) = Some r"
  shows "\<exists>found. searchWeb (query ui) = Inr found
           \<and> response_searchResults r = results found
           \<and> response_citations r = citations (results found)"
proof (cases "searchWeb (query ui)")
  case (Inl e)
  with assms show ?thesis by (simp add: handleSearch_def)
next
  case (Inr found)
  let ?body = "\<lparr>body_query = Some (query ui), body_searchResults = Some (results found)\<rparr>"
  let ?w2 = "emit (CallSynthesize (Inr ?body)) (emit (CallSearchWeb (query ui)) w)"
  obtain reply w3 where p: "POST env fetch (Inr ?body) ?w2 = (reply, w3)" by force
  show ?thesis
  proof (cases "ok (status reply)")
    case False
    with assms Inr p show ?thesis by (simp add: handleSearch_def Let_def)
  next
    case True
    with assms Inr p show ?thesis by (auto simp: handleSearch_def Let_def)
  qed
qed

lemma handleSearch_hi:
  "response (fst (handleSearch env_with_key backend_answering (idle (js ''hi''), world0))) \<noteq> None"
proof -
  obtain found where f: "searchWeb (query (idle (js ''hi''))) = Inr found"
    using searchWeb_hi by blast
  have g: "getOpenRouterClient env_with_key w =
       (Inr (new_OpenRouterClient (js ''sk-test'')),
        w\<lparr>openRouterClient := Some (new_OpenRouterClient (js ''sk-test''))\<rparr>)"
    if "openRouterClient w = None" for w
    using that by (simp add: getOpenRouterClient_def env_with_key_def js_def)
  have o: "ok 200" by (simp add: ok_def)
  have q: "query (idle (js ''hi'')) \<noteq> []" by (simp add: idle_def js_def)
  show ?thesis
    using trim_hi f q o
    by (simp add: handleSearch_def Let_def POST_def g emit_def world0_def
        synthesizeSearchResults_def chat_def backend_answering_def split: prod.splits)
qed

text \<open>
  C1. The citation table has one entry per search result, and its entry at position
  \<open>k\<close> (counted from 1) carries the number \<open>k\<close> and the title, url and domain of the
  result at position \<open>k - 1\<close> of the list it was built from. The response the handler
  stores holds the retrieved list and the table built from that same list.
\<close>

theorem citations_positional:
  "length (citations searchResults) = length searchResults \<and>
   (\<forall>k. 1 \<le> k \<and> k \<le> length searchResults \<longrightarrow>
      citations searchResults ! (k - 1) =
        \<lparr>number = k,
         title = SearchResult.title (searchResults ! (k - 1)),
         url = SearchResult.url (searchResults ! (k - 1)),
         domain = SearchResult.domain (searchResults ! (k - 1))\<rparr>) \<and>
   (\<forall>r. trim (query ui) \<noteq> [] \<and> response (fst (handleSearch env fetch (ui, w))) = Some r \<longrightarrow>
      (\<exists>found. searchWeb (query ui) = Inr found
         \<and> response_searchResults r = results found
         \<and> response_citations r = citations (response_searchResults r)))"
proof (intro conjI allI impI)
  show "length (citations searchResults) = length searchResults"
    by (simp add: citations_def map_index_def length_map_from)
next
  fix k
  assume "1 \<le> k \<and> k \<le> length searchResults"
  then have "k - 1 < length searchResults" and "Suc (k - 1) = k"
    by arith+
  then show "citations searchResults ! (k - 1) =
        \<lparr>number = k,
         title = SearchResult.title (searchResults ! (k - 1)),
         url = SearchResult.url (searchResults ! (k - 1)),
         domain = SearchResult.domain (searchResults ! (k - 1))\<rparr>"
    by (simp add: citations_def map_index_def nth_map_from)
next
  fix r
  assume "trim (query ui) \<noteq> [] \<and> response (fst (handleSearch env fetch (ui, w))) = Some r"
  then show "\<exists>found. searchWeb (query ui) = Inr found
         \<and> response_searchResults r = results found
         \<and> response_citations r = citations (response_searchResults r)"
    using handleSearch_response [of ui env fetch w r] by auto
qed

theorem citations_positional_witness:
  "citations
     [\<lparr>SearchResult.title = js ''A'', url = js ''https://a.example/'', snippet = js ''first'',
       domain = js ''a.example''\<rparr>,
      \<lparr>SearchResult.title = js ''B'', url = js ''https://b.example/'', snippet = js ''second'',
       domain = js ''b.example''\<rparr>] ! (2 - 1) =
     \<lparr>number = 2, title = js ''B'', url = js ''https://b.example/'', domain = js ''b.example''\<rparr>
   \<and> (\<exists>r. response (fst (handleSearch env_with_key backend_answering (idle (js ''hi''), world0)))
          = Some r
        \<and> response_citations r = citations (response_searchResults r))"
proof -
  note fact = citations_positional
    [where searchResults =
        "[\<lparr>SearchResult.title = js ''A'', url = js ''https://a.example/'', snippet = js ''first'',
           domain = js ''a.example''\<rparr>,
          \<lparr>SearchResult.title = js ''B'', url = js ''https://b.example/'', snippet = js ''second'',
           domain = js ''b.example''\<rparr>]"
      and ui = "idle (js ''hi'')" and env = env_with_key and fetch = backend_answering
      and w = world0]
  from fact [THEN conjunct2, THEN conjunct1, rule_format, of 2]
  have first: "citations
     [\<lparr>SearchResult.title = js ''A'', url = js ''https://a.example/'', snippet = js ''first'',
       domain = js ''a.example''\<rparr>,
      \<lparr>SearchResult.title = js ''B'', url = js ''https://b.example/'', snippet = js ''second'',
       domain = js ''b.example''\<rparr>] ! (2 - 1) =
     \<lparr>number = 2, title = js ''B'', url = js ''https://b.example/'', domain = js ''b.example''\<rparr>"
    by simp
  from handleSearch_hi obtain r where
    r: "response (fst (handleSearch env_with_key backend_answering (idle (js ''hi''), world0)))
          = Some r" by blast
  with fact [THEN conjunct2, THEN conjunct2, rule_format, of r] trim_hi
  have "response_citations r = citations (response_searchResults r)" by blast
  with first r show ?thesis by blast
qed

end
